theory Spec2Isabelle
  imports Complex_Main "HOL-Library.Product_Lexorder" "HOL-Library.List_Lexorder"
    "HOL-Library.Char_ord"
begin

section \<open>Data model (core/models.py)\<close>

text \<open>
  A Django \<open>FloatField\<close> holds a Python float. The development reads it as a
  \<^typ>\<open>real\<close>: sums and products are the exact ones, the rounding of IEEE arithmetic is
  not part of the model. A \<open>DateField\<close> holds a \<open>datetime.date\<close>, an immutable triple
  (year, month, day) that Python compares as that triple; it is the triple here, under the
  lexicographic order. A \<open>CharField\<close> holds a string; institutes are named by their primary key.
  The two time stamps of a consumption record (\<open>created_at\<close>, \<open>updated_at\<close>) are left out:
  no operation below reads them.
\<close>

type_synonym date = "nat \<times> nat \<times> nat"

definition year_of :: "date \<Rightarrow> nat" where
  "year_of d = fst d"

definition month_of :: "date \<Rightarrow> nat" where
  "month_of d = fst (snd d)"

definition day_of :: "date \<Rightarrow> nat" where
  "day_of d = snd (snd d)"

definition is_leap :: "nat \<Rightarrow> bool" where
  "is_leap y = (y mod 4 = 0 \<and> (y mod 100 \<noteq> 0 \<or> y mod 400 = 0))"

definition days_in_month :: "nat \<Rightarrow> nat \<Rightarrow> nat" where
  "days_in_month y m =
     (if m = 2 then (if is_leap y then 29 else 28)
      else if m = 4 \<or> m = 6 \<or> m = 9 \<or> m = 11 then 30 else 31)"

text \<open>The dates \<open>datetime.date\<close> can hold: years 1 to 9999.\<close>

definition valid_date :: "date \<Rightarrow> bool" where
  "valid_date d =
     (1 \<le> year_of d \<and> year_of d \<le> 9999 \<and> 1 \<le> month_of d \<and> month_of d \<le> 12 \<and>
      1 \<le> day_of d \<and> day_of d \<le> days_in_month (year_of d) (month_of d))"

record EmissionFactor =
  category :: string
  sub_category :: string
  factor :: real
  unit_label :: string
  description :: string
  source :: string

record ConsumptionRecord =
  pk :: "nat option"
  institute :: nat
  department :: string
  date :: date
  electricity_kwh :: real
  diesel_liters :: real
  petrol_liters :: real
  lpg_kg :: real
  water_kl :: real
  waste_kg :: real
  electricity_emissions :: real
  fuel_emissions :: real
  water_emissions :: real
  waste_emissions :: real
  total_emissions :: real

definition DEPARTMENT_CHOICES :: "(string \<times> string) list" where
  "DEPARTMENT_CHOICES =
     [(''HOSTEL'', ''Hostel''), (''CANTEEN'', ''Canteen''), (''ADMIN'', ''Administration''),
      (''LABS'', ''Laboratories''), (''TRANSPORT'', ''Transport'')]"

section \<open>The emissions calculator (ConsumptionRecord.calculate\_emissions)\<close>

text \<open>
  \<open>factors = {ef.sub_category: ef.factor for ef in EmissionFactor.objects.all()}\<close>:
  the rows are read in the table's order and a later row with the same sub-category
  overwrites an earlier one.
\<close>

definition factors_dict :: "EmissionFactor list \<Rightarrow> (string \<rightharpoonup> real)" where
  "factors_dict efs = foldl (\<lambda>m ef. m(sub_category ef \<mapsto> factor ef)) Map.empty efs"

text \<open>Python's \<open>dict.get(key, default)\<close>.\<close>

definition dict_get :: "('k \<rightharpoonup> 'v) \<Rightarrow> 'k \<Rightarrow> 'v \<Rightarrow> 'v" where
  "dict_get m k d = (case m k of None \<Rightarrow> d | Some v \<Rightarrow> v)"

text \<open>
  The method assigns the five derived attributes of \<open>self\<close> in turn, each later one reading
  the ones assigned before it, and returns the total. The model returns the record with
  the five fields assigned; the returned total is its \<open>total_emissions\<close>.
\<close>

definition calculate_emissions :: "EmissionFactor list \<Rightarrow> ConsumptionRecord \<Rightarrow> ConsumptionRecord" where
  "calculate_emissions efs self =
     (let factors = factors_dict efs;
          s1 = self\<lparr>electricity_emissions := electricity_kwh self * dict_get factors ''GRID'' 0.82\<rparr>;
          s2 = s1\<lparr>fuel_emissions :=
                    diesel_liters s1 * dict_get factors ''DIESEL'' 2.68 +
                    petrol_liters s1 * dict_get factors ''PETROL'' 2.31 +
                    lpg_kg s1 * dict_get factors ''LPG'' 2.98\<rparr>;
          s3 = s2\<lparr>water_emissions := water_kl s2 * dict_get factors ''MUNICIPAL_WATER'' 0.344\<rparr>;
          s4 = s3\<lparr>waste_emissions := waste_kg s3 * dict_get factors ''GENERAL_WASTE'' 0.58\<rparr>
      in s4\<lparr>total_emissions :=
               electricity_emissions s4 + fuel_emissions s4 + water_emissions s4 +
               waste_emissions s4\<rparr>)"

section \<open>The record store\<close>

datatype error =
    ValidationError "string list"
  | IntegrityError
  | Http404
  | ValueError
  | OverflowError
  | MultipleObjectsReturned

record database =
  emission_factors :: "EmissionFactor list"
  consumption_records :: "ConsumptionRecord list"
  next_pk :: nat

text \<open>
  \<open>unique_together = ['institute', 'department', 'date']\<close>: the table refuses a row whose
  triple is that of another row.
\<close>

definition violates_unique :: "ConsumptionRecord list \<Rightarrow> ConsumptionRecord \<Rightarrow> bool" where
  "violates_unique rows r =
     list_ex (\<lambda>x. pk x \<noteq> pk r \<and> institute x = institute r \<and> department x = department r \<and>
                   date x = date r) rows"

text \<open>
  \<open>models.Model.save\<close>, the call \<open>super().save(*args, **kwargs)\<close>: one statement against
  the table, an UPDATE of the row with the instance's primary key when there is one, an
  INSERT otherwise (with a fresh key when the instance has none). The statement either
  takes effect or raises \<open>IntegrityError\<close> and changes nothing.
\<close>

definition base_save :: "database \<Rightarrow> ConsumptionRecord \<Rightarrow> (error + ConsumptionRecord) \<times> database" where
  "base_save db r =
     (let rows = consumption_records db in
      if violates_unique rows r then (Inl IntegrityError, db)
      else (case pk r of
              None \<Rightarrow>
                (let r' = r\<lparr>pk := Some (next_pk db)\<rparr>
                 in (Inr r', db\<lparr>consumption_records := rows @ [r'], next_pk := next_pk db + 1\<rparr>))
            | Some i \<Rightarrow>
                if list_ex (\<lambda>x. pk x = Some i) rows
                then (Inr r, db\<lparr>consumption_records := map (\<lambda>x. if pk x = Some i then r else x) rows\<rparr>)
                else (Inr r, db\<lparr>consumption_records := rows @ [r]\<rparr>)))"

text \<open>\<open>ConsumptionRecord.save\<close>: recompute the derived fields, then write.\<close>

definition save :: "database \<Rightarrow> ConsumptionRecord \<Rightarrow> (error + ConsumptionRecord) \<times> database" where
  "save db self = base_save db (calculate_emissions (emission_factors db) self)"

section \<open>The serializer (core/serializers.py)\<close>

text \<open>
  What the request body holds for one field of the serializer: nothing, something the
  field's parser refuses (a JSON null, a string that is no number, no date), or a value
  of the field's type.
\<close>

datatype 'a submitted = Missing | Malformed | Value 'a

record request_data =
  rq_department :: "string submitted"
  rq_date :: "date submitted"
  rq_electricity_kwh :: "real submitted"
  rq_diesel_liters :: "real submitted"
  rq_petrol_liters :: "real submitted"
  rq_lpg_kg :: "real submitted"
  rq_water_kl :: "real submitted"
  rq_waste_kg :: "real submitted"
  rq_electricity_emissions :: "real submitted"
  rq_fuel_emissions :: "real submitted"
  rq_water_emissions :: "real submitted"
  rq_waste_emissions :: "real submitted"
  rq_total_emissions :: "real submitted"

record validated_data =
  vd_department :: "string option"
  vd_date :: "date option"
  vd_electricity_kwh :: "real option"
  vd_diesel_liters :: "real option"
  vd_petrol_liters :: "real option"
  vd_lpg_kg :: "real option"
  vd_water_kl :: "real option"
  vd_waste_kg :: "real option"

datatype 'a field_result = Skip | Ok 'a | Err

text \<open>
  One writable field: a missing entry is an error when the field is required and the
  update is not partial, and is skipped otherwise; a present entry must parse and pass
  the field's own check.
\<close>

definition run_field :: "bool \<Rightarrow> bool \<Rightarrow> ('a \<Rightarrow> bool) \<Rightarrow> 'a submitted \<Rightarrow> 'a field_result" where
  "run_field required partial check s =
     (case s of
        Missing \<Rightarrow> if required \<and> \<not> partial then Err else Skip
      | Malformed \<Rightarrow> Err
      | Value v \<Rightarrow> if check v then Ok v else Err)"

definition field_value :: "'a field_result \<Rightarrow> 'a option" where
  "field_value r = (case r of Ok v \<Rightarrow> Some v | _ \<Rightarrow> None)"

definition field_error :: "string \<Rightarrow> 'a field_result \<Rightarrow> string list" where
  "field_error name r = (case r of Err \<Rightarrow> [name] | _ \<Rightarrow> [])"

text \<open>
  \<open>ConsumptionRecordSerializer\<close> as the framework builds it from \<open>Meta\<close>: \<open>department\<close> is
  a required choice among \<open>DEPARTMENT_CHOICES\<close>, \<open>date\<close> a required date, the six
  quantities are floats that are not required (the model gives them a default) and carry
  no validator. The five emission fields are in \<open>read_only_fields\<close>: whatever the body
  holds for them is dropped. No uniqueness validator is generated for the triple, since
  \<open>institute\<close> is not a field of the serializer; the table's constraint is what refuses a
  duplicate.
\<close>

definition is_valid :: "bool \<Rightarrow> request_data \<Rightarrow> error + validated_data" where
  "is_valid partial data =
     (let dep = run_field True partial (\<lambda>v. v \<in> set (map fst DEPARTMENT_CHOICES)) (rq_department data);
          dat = run_field True partial valid_date (rq_date data);
          ele = run_field False partial (\<lambda>v. True) (rq_electricity_kwh data);
          die = run_field False partial (\<lambda>v. True) (rq_diesel_liters data);
          pet = run_field False partial (\<lambda>v. True) (rq_petrol_liters data);
          lpg = run_field False partial (\<lambda>v. True) (rq_lpg_kg data);
          wat = run_field False partial (\<lambda>v. True) (rq_water_kl data);
          was = run_field False partial (\<lambda>v. True) (rq_waste_kg data);
          errors = field_error ''department'' dep @ field_error ''date'' dat @
                   field_error ''electricity_kwh'' ele @ field_error ''diesel_liters'' die @
                   field_error ''petrol_liters'' pet @ field_error ''lpg_kg'' lpg @
                   field_error ''water_kl'' wat @ field_error ''waste_kg'' was
      in if errors \<noteq> [] then Inl (ValidationError errors)
         else Inr \<lparr>vd_department = field_value dep, vd_date = field_value dat,
                   vd_electricity_kwh = field_value ele, vd_diesel_liters = field_value die,
                   vd_petrol_liters = field_value pet, vd_lpg_kg = field_value lpg,
                   vd_water_kl = field_value wat, vd_waste_kg = field_value was\<rparr>)"

text \<open>
  \<open>setattr(instance, attr, value)\<close> for every entry of the validated data; the fields the
  data does not name keep their value.
\<close>

definition set_attrs :: "validated_data \<Rightarrow> ConsumptionRecord \<Rightarrow> ConsumptionRecord" where
  "set_attrs vd r =
     r\<lparr>department := (case vd_department vd of None \<Rightarrow> department r | Some v \<Rightarrow> v),
       date := (case vd_date vd of None \<Rightarrow> date r | Some v \<Rightarrow> v),
       electricity_kwh := (case vd_electricity_kwh vd of None \<Rightarrow> electricity_kwh r | Some v \<Rightarrow> v),
       diesel_liters := (case vd_diesel_liters vd of None \<Rightarrow> diesel_liters r | Some v \<Rightarrow> v),
       petrol_liters := (case vd_petrol_liters vd of None \<Rightarrow> petrol_liters r | Some v \<Rightarrow> v),
       lpg_kg := (case vd_lpg_kg vd of None \<Rightarrow> lpg_kg r | Some v \<Rightarrow> v),
       water_kl := (case vd_water_kl vd of None \<Rightarrow> water_kl r | Some v \<Rightarrow> v),
       waste_kg := (case vd_waste_kg vd of None \<Rightarrow> waste_kg r | Some v \<Rightarrow> v)\<rparr>"

text \<open>
  \<open>ConsumptionRecordSerializer.create\<close>: the institute is the requesting user, the record
  is built from the validated data over the model's defaults (every quantity and every
  emission field 0) and saved. A record without a date cannot be built from validated
  data of a create, where the field is required; the table would refuse it.
\<close>

definition new_instance :: "nat \<Rightarrow> date \<Rightarrow> ConsumptionRecord" where
  "new_instance user d =
     \<lparr>pk = None, institute = user, department = [], date = d,
      electricity_kwh = 0, diesel_liters = 0, petrol_liters = 0, lpg_kg = 0, water_kl = 0,
      waste_kg = 0, electricity_emissions = 0, fuel_emissions = 0, water_emissions = 0,
      waste_emissions = 0, total_emissions = 0\<rparr>"

definition create :: "database \<Rightarrow> nat \<Rightarrow> validated_data \<Rightarrow> (error + ConsumptionRecord) \<times> database" where
  "create db user vd =
     (case vd_date vd of
        None \<Rightarrow> (Inl IntegrityError, db)
      | Some d \<Rightarrow> save db (set_attrs vd (new_instance user d)))"

text \<open>\<open>ModelSerializer.update\<close>: assign the validated entries to the instance and save it.\<close>

definition update :: "database \<Rightarrow> ConsumptionRecord \<Rightarrow> validated_data \<Rightarrow> (error + ConsumptionRecord) \<times> database" where
  "update db instance vd = save db (set_attrs vd instance)"

section \<open>The consumption views (core/views.py)\<close>

text \<open>\<open>get_queryset\<close>: \<open>ConsumptionRecord.objects.filter(institute=self.request.user)\<close>.\<close>

definition get_queryset :: "database \<Rightarrow> nat \<Rightarrow> ConsumptionRecord list" where
  "get_queryset db user = filter (\<lambda>r. institute r = user) (consumption_records db)"

definition get_object :: "database \<Rightarrow> nat \<Rightarrow> nat \<Rightarrow> error + ConsumptionRecord" where
  "get_object db user i =
     (case filter (\<lambda>r. pk r = Some i) (get_queryset db user) of
        [] \<Rightarrow> Inl Http404
      | r # _ \<Rightarrow> Inr r)"

text \<open>\<open>POST /consumption/\<close> (\<open>ConsumptionRecordListCreateView\<close>).\<close>

definition post_consumption :: "database \<Rightarrow> nat \<Rightarrow> request_data \<Rightarrow> (error + ConsumptionRecord) \<times> database" where
  "post_consumption db user data =
     (case is_valid False data of
        Inl e \<Rightarrow> (Inl e, db)
      | Inr vd \<Rightarrow> create db user vd)"

text \<open>
  \<open>PUT\<close> and \<open>PATCH /consumption/<pk>/\<close> (\<open>ConsumptionRecordDetailView\<close>): the record is
  looked up among the caller's own, the body validated (\<open>partial\<close> for PATCH), the
  instance updated.
\<close>

definition update_consumption ::
    "bool \<Rightarrow> database \<Rightarrow> nat \<Rightarrow> nat \<Rightarrow> request_data \<Rightarrow> (error + ConsumptionRecord) \<times> database" where
  "update_consumption partial db user i data =
     (case get_object db user i of
        Inl e \<Rightarrow> (Inl e, db)
      | Inr instance \<Rightarrow>
          (case is_valid partial data of
             Inl e \<Rightarrow> (Inl e, db)
           | Inr vd \<Rightarrow> update db instance vd))"

definition put_consumption :: "database \<Rightarrow> nat \<Rightarrow> nat \<Rightarrow> request_data \<Rightarrow> (error + ConsumptionRecord) \<times> database" where
  "put_consumption = update_consumption False"

definition patch_consumption :: "database \<Rightarrow> nat \<Rightarrow> nat \<Rightarrow> request_data \<Rightarrow> (error + ConsumptionRecord) \<times> database" where
  "patch_consumption = update_consumption True"

section \<open>The factor table's writers (seed\_emission\_factors.py)\<close>

text \<open>
  \<open>EmissionFactor.objects.update_or_create(category=..., sub_category=..., defaults=...)\<close>:
  the row with that pair takes the new values, or a row is appended when there is none.
  The flag returned says whether a row was created.
\<close>

definition update_or_create ::
    "EmissionFactor list \<Rightarrow> EmissionFactor \<Rightarrow> error + (EmissionFactor list \<times> bool)" where
  "update_or_create efs ef =
     (let same = (\<lambda>x. category x = category ef \<and> sub_category x = sub_category ef) in
      case filter same efs of
        [] \<Rightarrow> Inr (efs @ [ef], True)
      | [x] \<Rightarrow> Inr (map (\<lambda>x. if same x then ef else x) efs, False)
      | _ \<Rightarrow> Inl MultipleObjectsReturned)"

definition seed_factors :: "EmissionFactor list" where
  "seed_factors =
     [\<lparr>category = ''ELECTRICITY'', sub_category = ''GRID'', factor = 0.82, unit_label = ''kWh'',
       description = ''CO2 emissions from Indian grid electricity'',
       source = ''India GHG Program / CEA 2023''\<rparr>,
      \<lparr>category = ''FUEL'', sub_category = ''DIESEL'', factor = 2.68, unit_label = ''liter'',
       description = ''CO2 emissions from diesel combustion'', source = ''IPCC 2006 Guidelines''\<rparr>,
      \<lparr>category = ''FUEL'', sub_category = ''PETROL'', factor = 2.31, unit_label = ''liter'',
       description = ''CO2 emissions from petrol/gasoline combustion'',
       source = ''IPCC 2006 Guidelines''\<rparr>,
      \<lparr>category = ''FUEL'', sub_category = ''LPG'', factor = 2.98, unit_label = ''kg'',
       description = ''CO2 emissions from LPG combustion'', source = ''IPCC 2006 Guidelines''\<rparr>,
      \<lparr>category = ''FUEL'', sub_category = ''CNG'', factor = 2.75, unit_label = ''kg'',
       description = ''CO2 emissions from CNG combustion'', source = ''IPCC 2006 Guidelines''\<rparr>,
      \<lparr>category = ''WATER'', sub_category = ''MUNICIPAL_WATER'', factor = 0.344, unit_label = ''kL'',
       description = ''CO2 emissions from water treatment and distribution'',
       source = ''Water Research Foundation''\<rparr>,
      \<lparr>category = ''WASTE'', sub_category = ''ORGANIC_WASTE'', factor = 0.58, unit_label = ''kg'',
       description = ''CO2e emissions from organic waste decomposition'',
       source = ''EPA WARM Model''\<rparr>,
      \<lparr>category = ''WASTE'', sub_category = ''PLASTIC_WASTE'', factor = 6.0, unit_label = ''kg'',
       description = ''CO2e emissions from plastic waste (lifecycle)'', source = ''EPA WARM Model''\<rparr>,
      \<lparr>category = ''WASTE'', sub_category = ''E_WASTE'', factor = 2.0, unit_label = ''kg'',
       description = ''CO2e emissions from e-waste processing'', source = ''Estimated''\<rparr>,
      \<lparr>category = ''WASTE'', sub_category = ''GENERAL_WASTE'', factor = 0.58, unit_label = ''kg'',
       description = ''CO2e emissions from general mixed waste'', source = ''EPA WARM Model''\<rparr>]"

text \<open>
  The loop of \<open>Command.handle\<close> over the remaining entries, with the table and the two
  counters as its state. An exception of \<open>update_or_create\<close> ends the command; the rows
  written before it stay written.
\<close>

fun seed_loop ::
    "EmissionFactor list \<Rightarrow> EmissionFactor list \<Rightarrow> nat \<Rightarrow> nat \<Rightarrow> (error + nat \<times> nat) \<times> EmissionFactor list" where
  "seed_loop [] efs created_count updated_count = (Inr (created_count, updated_count), efs)"
| "seed_loop (ef_data # rest) efs created_count updated_count =
     (case update_or_create efs ef_data of
        Inl e \<Rightarrow> (Inl e, efs)
      | Inr (efs', created) \<Rightarrow>
          if created then seed_loop rest efs' (created_count + 1) updated_count
          else seed_loop rest efs' created_count (updated_count + 1))"

definition handle :: "database \<Rightarrow> (error + nat \<times> nat) \<times> database" where
  "handle db =
     (case seed_loop seed_factors (emission_factors db) 0 0 of
        (res, efs) \<Rightarrow> (res, db\<lparr>emission_factors := efs\<rparr>))"

text \<open>
  The admin site (core/admin.py) registers \<open>EmissionFactor\<close> with its fields editable: an
  administrator's edit of the factor of the row with a given (category, sub-category)
  pair.
\<close>

definition change_factor :: "database \<Rightarrow> string \<Rightarrow> string \<Rightarrow> real \<Rightarrow> database" where
  "change_factor db c s v =
     db\<lparr>emission_factors :=
          map (\<lambda>ef. if category ef = c \<and> sub_category ef = s then ef\<lparr>factor := v\<rparr> else ef)
              (emission_factors db)\<rparr>"

section \<open>Dashboard statistics (DashboardStatsView.get)\<close>

subsection \<open>Python and ORM primitives the view uses\<close>

text \<open>
  \<open>int(s)\<close> on a string of ASCII characters: surrounding white space is dropped, one sign
  is allowed, then decimal digits, single underscores allowed between digits. Anything
  else raises \<open>ValueError\<close> (\<open>None\<close> here).
\<close>

definition is_space :: "char \<Rightarrow> bool" where
  "is_space c = (c \<in> set [CHR 0x09, CHR 0x0A, CHR 0x0B, CHR 0x0C, CHR 0x0D,
                           CHR 0x1C, CHR 0x1D, CHR 0x1E, CHR 0x1F, CHR 0x20])"

definition strip :: "string \<Rightarrow> string" where
  "strip s = rev (dropWhile is_space (rev (dropWhile is_space s)))"

definition digit_val :: "char \<Rightarrow> nat option" where
  "digit_val c =
     (if CHR ''0'' \<le> c \<and> c \<le> CHR ''9'' then Some (of_char c - 48) else None)"

fun digits_val :: "nat \<Rightarrow> bool \<Rightarrow> string \<Rightarrow> nat option" where
  "digits_val acc prev [] = (if prev then Some acc else None)"
| "digits_val acc prev (c # cs) =
     (if c = CHR ''_'' then (if prev then digits_val acc False cs else None)
      else (case digit_val c of
              None \<Rightarrow> None
            | Some v \<Rightarrow> digits_val (acc * 10 + v) True cs))"

definition py_int :: "string \<Rightarrow> int option" where
  "py_int s =
     (case strip s of
        [] \<Rightarrow> None
      | c # cs \<Rightarrow>
          if c = CHR ''-'' then map_option (\<lambda>n. - int n) (digits_val 0 False cs)
          else if c = CHR ''+'' then map_option int (digits_val 0 False cs)
          else map_option int (digits_val 0 False (c # cs)))"

text \<open>
  A query parameter is absent or a string. \<open>if year: ... int(year)\<close>: an absent or empty
  parameter gives no filter, any other string is converted.
\<close>

definition parse_param :: "string option \<Rightarrow> error + int option" where
  "parse_param p =
     (case p of
        None \<Rightarrow> Inr None
      | Some s \<Rightarrow>
          if s = [] then Inr None
          else (case py_int s of None \<Rightarrow> Inl ValueError | Some n \<Rightarrow> Inr (Some n)))"

text \<open>
  \<open>Sum(field)\<close> over a set of rows is SQL's SUM: NULL (\<open>None\<close>) over no rows.
  \<open>x or 0\<close> replaces \<open>None\<close>, and a zero, by 0.
\<close>

definition Sum_agg :: "('a \<Rightarrow> real) \<Rightarrow> 'a list \<Rightarrow> real option" where
  "Sum_agg f rows = (if rows = [] then None else Some (sum_list (map f rows)))"

definition or0 :: "real option \<Rightarrow> real" where
  "or0 x = (case x of None \<Rightarrow> 0 | Some v \<Rightarrow> if v = 0 then 0 else v)"

text \<open>\<open>round(x, n)\<close>: to \<open>n\<close> decimal places, a tie going to the even neighbour.\<close>

definition round_half_even :: "real \<Rightarrow> int" where
  "round_half_even y =
     (let f = \<lfloor>y\<rfloor>; d = y - of_int f
      in if d < 1 / 2 then f else if 1 / 2 < d then f + 1 else if even f then f else f + 1)"

definition py_round :: "real \<Rightarrow> nat \<Rightarrow> real" where
  "py_round x n = of_int (round_half_even (x * 10 ^ n)) / 10 ^ n"

text \<open>
  \<open>date - timedelta(days=n)\<close>, one day at a time; Python raises \<open>OverflowError\<close> when the
  result would lie before 1 January of year 1.
\<close>

fun prev_day :: "date \<Rightarrow> date option" where
  "prev_day (y, m, d) =
     (if 1 < d then Some (y, m, d - 1)
      else if 1 < m then Some (y, m - 1, days_in_month y (m - 1))
      else if 1 < y then Some (y - 1, 12, 31)
      else None)"

fun minus_days :: "date \<Rightarrow> nat \<Rightarrow> date option" where
  "minus_days d 0 = Some d"
| "minus_days d (Suc n) = (case prev_day d of None \<Rightarrow> None | Some p \<Rightarrow> minus_days p n)"

text \<open>\<open>TruncMonth('date')\<close>: the first day of the date's month.\<close>

definition TruncMonth :: "date \<Rightarrow> date" where
  "TruncMonth d = (year_of d, month_of d, 1)"

text \<open>
  \<open>strftime('%Y-%m')\<close>: the year in decimal, a hyphen, the month in two digits (the year
  has four digits from year 1000 on).
\<close>

definition digit_char :: "nat \<Rightarrow> char" where
  "digit_char n = char_of (48 + n mod 10)"

fun show_nat :: "nat \<Rightarrow> string" where
  "show_nat n = (if n < 10 then [digit_char n] else show_nat (n div 10) @ [digit_char n])"

definition strftime_Ym :: "date \<Rightarrow> string" where
  "strftime_Ym d =
     show_nat (year_of d) @ ''-'' @ [digit_char (month_of d div 10), digit_char (month_of d)]"

subsection \<open>The view\<close>

text \<open>
  \<open>records\<close>: the caller's records, narrowed by the year and by the month when the
  parameters are given. The year lookup compares the date with the bounds
  \<open>date(year, 1, 1)\<close> and \<open>date(year, 12, 31)\<close>, which Python cannot build for a year outside
  1 to 9999: the query then raises when it is run. The month lookup compares the
  extracted month with the number.
\<close>

definition filtered_records ::
    "database \<Rightarrow> nat \<Rightarrow> string option \<Rightarrow> string option \<Rightarrow> error + ConsumptionRecord list" where
  "filtered_records db user year month =
     (let records = filter (\<lambda>r. institute r = user) (consumption_records db) in
      case parse_param year of
        Inl e \<Rightarrow> Inl e
      | Inr y \<Rightarrow>
          (case parse_param month of
             Inl e \<Rightarrow> Inl e
           | Inr m \<Rightarrow>
               (let by_month = (\<lambda>rs. case m of None \<Rightarrow> rs
                                     | Some mv \<Rightarrow> filter (\<lambda>r. int (month_of (date r)) = mv) rs)
                in case y of
                     None \<Rightarrow> Inr (by_month records)
                   | Some yv \<Rightarrow>
                       if 1 \<le> yv \<and> yv \<le> 9999
                       then Inr (by_month (filter (\<lambda>r. int (year_of (date r)) = yv) records))
                       else Inl ValueError)))"

text \<open>
  \<open>records.values('department').annotate(total=Sum('total_emissions')).order_by('department')\<close>:
  one row per department that occurs, in the order of the department codes.
\<close>

definition department_data :: "ConsumptionRecord list \<Rightarrow> (string \<times> real option) list" where
  "department_data records =
     map (\<lambda>d. (d, Sum_agg total_emissions (filter (\<lambda>r. department r = d) records)))
         (sort (remdups (map department records)))"

definition department_breakdown :: "ConsumptionRecord list \<Rightarrow> (string \<times> real) list" where
  "department_breakdown records =
     map (\<lambda>item. (fst item, py_round (or0 (snd item)) 2)) (department_data records)"

record monthly_row =
  mr_month :: date
  mr_total_emissions :: "real option"
  mr_electricity_emissions :: "real option"
  mr_fuel_emissions :: "real option"
  mr_water_emissions :: "real option"
  mr_waste_emissions :: "real option"

text \<open>
  \<open>monthly_data\<close>: the query starts again from \<open>ConsumptionRecord.objects\<close>, keeps the
  caller's records dated \<open>twelve_months_ago\<close> or later, groups them by the month of the date
  and orders the groups by that month.
\<close>

definition trend_records :: "database \<Rightarrow> nat \<Rightarrow> date \<Rightarrow> ConsumptionRecord list" where
  "trend_records db user twelve_months_ago =
     filter (\<lambda>r. institute r = user \<and> twelve_months_ago \<le> date r) (consumption_records db)"

definition monthly_data :: "database \<Rightarrow> nat \<Rightarrow> date \<Rightarrow> monthly_row list" where
  "monthly_data db user twelve_months_ago =
     (let rows = trend_records db user twelve_months_ago in
      map (\<lambda>m. let grp = filter (\<lambda>r. TruncMonth (date r) = m) rows in
                \<lparr>mr_month = m,
                 mr_total_emissions = Sum_agg total_emissions grp,
                 mr_electricity_emissions = Sum_agg electricity_emissions grp,
                 mr_fuel_emissions = Sum_agg fuel_emissions grp,
                 mr_water_emissions = Sum_agg water_emissions grp,
                 mr_waste_emissions = Sum_agg waste_emissions grp\<rparr>)
          (sort (remdups (map (\<lambda>r. TruncMonth (date r)) rows))))"

record trend_entry =
  te_month :: string
  te_total_emissions :: real
  te_electricity_emissions :: real
  te_fuel_emissions :: real
  te_water_emissions :: real
  te_waste_emissions :: real

definition trend_item :: "monthly_row \<Rightarrow> trend_entry" where
  "trend_item item =
     \<lparr>te_month = strftime_Ym (mr_month item),
      te_total_emissions = py_round (or0 (mr_total_emissions item)) 2,
      te_electricity_emissions = py_round (or0 (mr_electricity_emissions item)) 2,
      te_fuel_emissions = py_round (or0 (mr_fuel_emissions item)) 2,
      te_water_emissions = py_round (or0 (mr_water_emissions item)) 2,
      te_waste_emissions = py_round (or0 (mr_waste_emissions item)) 2\<rparr>"

record Stats =
  st_total_emissions :: real
  st_electricity_emissions :: real
  st_fuel_emissions :: real
  st_water_emissions :: real
  st_waste_emissions :: real
  st_department_breakdown :: "(string \<times> real) list"
  st_monthly_trend :: "trend_entry list"
  st_record_count :: nat

text \<open>
  The view, with the server's current date \<open>timezone.now().date()\<close> as \<open>today\<close>. The
  response is the dictionary of the eight entries; the department breakdown is the
  dictionary built from \<open>department_data\<close>, kept here as the list of its items in
  insertion order.
\<close>

definition DashboardStatsView_get ::
    "database \<Rightarrow> nat \<Rightarrow> date \<Rightarrow> string option \<Rightarrow> string option \<Rightarrow> error + Stats" where
  "DashboardStatsView_get db user today year month =
     (case filtered_records db user year month of
        Inl e \<Rightarrow> Inl e
      | Inr records \<Rightarrow>
          (case minus_days today 365 of
             None \<Rightarrow> Inl OverflowError
           | Some twelve_months_ago \<Rightarrow>
               Inr \<lparr>st_total_emissions = py_round (or0 (Sum_agg total_emissions records)) 2,
                    st_electricity_emissions = py_round (or0 (Sum_agg electricity_emissions records)) 2,
                    st_fuel_emissions = py_round (or0 (Sum_agg fuel_emissions records)) 2,
                    st_water_emissions = py_round (or0 (Sum_agg water_emissions records)) 2,
                    st_waste_emissions = py_round (or0 (Sum_agg waste_emissions records)) 2,
                    st_department_breakdown = department_breakdown records,
                    st_monthly_trend = map trend_item (monthly_data db user twelve_months_ago),
                    st_record_count = length records\<rparr>))"

section \<open>The store's constraints\<close>

text \<open>
  What the database keeps true of the table of consumption records: every row has a
  primary key below the next one to be given out, no two rows share a key, and no two
  rows share an (institute, department, date) triple.
\<close>

definition unique_key :: "ConsumptionRecord \<Rightarrow> nat \<times> string \<times> date" where
  "unique_key r = (institute r, department r, date r)"

definition wf_db :: "database \<Rightarrow> bool" where
  "wf_db db =
     (list_all (\<lambda>r. case pk r of None \<Rightarrow> False | Some i \<Rightarrow> i < next_pk db) (consumption_records db) \<and>
      distinct (map pk (consumption_records db)) \<and>
      distinct (map unique_key (consumption_records db)))"

section \<open>Example data\<close>

definition test_raw :: ConsumptionRecord where
  "test_raw =
     \<lparr>pk = None, institute = 7, department = ''LABS'', date = (2026, 10, 25),
      electricity_kwh = 100, diesel_liters = 10, petrol_liters = 5, lpg_kg = 2, water_kl = 3,
      waste_kg = 20, electricity_emissions = 0, fuel_emissions = 0, water_emissions = 0,
      waste_emissions = 0, total_emissions = 0\<rparr>"

definition grid_only :: "EmissionFactor list" where
  "grid_only =
     [\<lparr>category = ''ELECTRICITY'', sub_category = ''GRID'', factor = 0.9, unit_label = ''kWh'',
       description = [], source = []\<rparr>]"

definition grid_db :: database where
  "grid_db = \<lparr>emission_factors = grid_only, consumption_records = [], next_pk = 4\<rparr>"

definition test_saved :: ConsumptionRecord where
  "test_saved =
     test_raw\<lparr>pk := Some 4, electricity_emissions := 90, fuel_emissions := 44.31,
              water_emissions := 1.032, waste_emissions := 11.6, total_emissions := 146.942\<rparr>"

definition grid_db_saved :: database where
  "grid_db_saved = \<lparr>emission_factors = grid_only, consumption_records = [test_saved], next_pk = 5\<rparr>"

definition seed_variant :: "EmissionFactor list" where
  "seed_variant =
     map (\<lambda>ef. if sub_category ef \<in> set [''CNG'', ''ORGANIC_WASTE'', ''PLASTIC_WASTE'', ''E_WASTE'']
                then ef\<lparr>factor := 99\<rparr> else ef) seed_factors @
     [\<lparr>category = ''FUEL'', sub_category = ''KEROSENE'', factor = 2.5, unit_label = ''liter'',
       description = [], source = []\<rparr>]"

definition plain_request :: request_data where
  "plain_request =
     \<lparr>rq_department = Value ''LABS'', rq_date = Value (2026, 10, 25),
      rq_electricity_kwh = Value 100, rq_diesel_liters = Value 10, rq_petrol_liters = Value 5,
      rq_lpg_kg = Value 2, rq_water_kl = Value 3, rq_waste_kg = Value 20,
      rq_electricity_emissions = Missing, rq_fuel_emissions = Missing,
      rq_water_emissions = Missing, rq_waste_emissions = Missing, rq_total_emissions = Missing\<rparr>"

definition forged_request :: request_data where
  "forged_request =
     plain_request\<lparr>rq_electricity_emissions := Value 0, rq_fuel_emissions := Value 1,
                    rq_water_emissions := Malformed, rq_waste_emissions := Value (- 7),
                    rq_total_emissions := Value 0\<rparr>"

definition plain_vd :: validated_data where
  "plain_vd =
     \<lparr>vd_department = Some ''LABS'', vd_date = Some (2026, 10, 25),
      vd_electricity_kwh = Some 100, vd_diesel_liters = Some 10, vd_petrol_liters = Some 5,
      vd_lpg_kg = Some 2, vd_water_kl = Some 3, vd_waste_kg = Some 20\<rparr>"

definition double_request :: request_data where
  "double_request = plain_request\<lparr>rq_electricity_kwh := Value 200\<rparr>"

definition double_vd :: validated_data where
  "double_vd = plain_vd\<lparr>vd_electricity_kwh := Some 200\<rparr>"

definition test_updated :: ConsumptionRecord where
  "test_updated =
     test_saved\<lparr>electricity_kwh := 200, electricity_emissions := 180, total_emissions := 236.942\<rparr>"

definition grid_db_updated :: database where
  "grid_db_updated = \<lparr>emission_factors = grid_only, consumption_records = [test_updated], next_pk = 5\<rparr>"

definition negative_request :: request_data where
  "negative_request = plain_request\<lparr>rq_electricity_kwh := Value (- 100)\<rparr>"

definition negative_vd :: validated_data where
  "negative_vd = plain_vd\<lparr>vd_electricity_kwh := Some (- 100)\<rparr>"

definition negative_saved :: ConsumptionRecord where
  "negative_saved =
     test_raw\<lparr>pk := Some 4, electricity_kwh := - 100, electricity_emissions := - 90,
              fuel_emissions := 44.31, water_emissions := 1.032, waste_emissions := 11.6,
              total_emissions := - 33.058\<rparr>"

definition negative_db :: database where
  "negative_db = \<lparr>emission_factors = grid_only, consumption_records = [negative_saved], next_pk = 5\<rparr>"

definition negative_patch :: request_data where
  "negative_patch =
     \<lparr>rq_department = Missing, rq_date = Missing,
      rq_electricity_kwh = Value (- 1), rq_diesel_liters = Value (- 2), rq_petrol_liters = Value (- 3),
      rq_lpg_kg = Value (- 4), rq_water_kl = Value (- 5), rq_waste_kg = Value (- 6),
      rq_electricity_emissions = Missing, rq_fuel_emissions = Missing,
      rq_water_emissions = Missing, rq_waste_emissions = Missing, rq_total_emissions = Missing\<rparr>"

definition empty_patch :: request_data where
  "empty_patch =
     \<lparr>rq_department = Missing, rq_date = Missing,
      rq_electricity_kwh = Missing, rq_diesel_liters = Missing, rq_petrol_liters = Missing,
      rq_lpg_kg = Missing, rq_water_kl = Missing, rq_waste_kg = Missing,
      rq_electricity_emissions = Missing, rq_fuel_emissions = Missing,
      rq_water_emissions = Missing, rq_waste_emissions = Missing, rq_total_emissions = Missing\<rparr>"

definition empty_vd :: validated_data where
  "empty_vd =
     \<lparr>vd_department = None, vd_date = None, vd_electricity_kwh = None, vd_diesel_liters = None,
      vd_petrol_liters = None, vd_lpg_kg = None, vd_water_kl = None, vd_waste_kg = None\<rparr>"

definition halved_grid :: "EmissionFactor list" where
  "halved_grid =
     [\<lparr>category = ''ELECTRICITY'', sub_category = ''GRID'', factor = 0.5, unit_label = ''kWh'',
       description = [], source = []\<rparr>]"

definition test_refreshed :: ConsumptionRecord where
  "test_refreshed = test_saved\<lparr>electricity_emissions := 50, total_emissions := 106.942\<rparr>"

definition halved_db :: database where
  "halved_db = \<lparr>emission_factors = halved_grid, consumption_records = [test_saved], next_pk = 5\<rparr>"

definition halved_db_refreshed :: database where
  "halved_db_refreshed =
     \<lparr>emission_factors = halved_grid, consumption_records = [test_refreshed], next_pk = 5\<rparr>"

text \<open>
  The filter as the specification words it: the record is the institute's, and of the
  year when a year is given, and of the month when a month is given.
\<close>

definition in_filter :: "nat \<Rightarrow> int option \<Rightarrow> int option \<Rightarrow> ConsumptionRecord \<Rightarrow> bool" where
  "in_filter user y m r =
     (institute r = user \<and>
      (case y of None \<Rightarrow> True | Some yv \<Rightarrow> int (year_of (date r)) = yv) \<and>
      (case m of None \<Rightarrow> True | Some mv \<Rightarrow> int (month_of (date r)) = mv))"

text \<open>The years for which the year lookup can be run.\<close>

definition year_in_range :: "int option \<Rightarrow> bool" where
  "year_in_range y = (case y of None \<Rightarrow> True | Some yv \<Rightarrow> 1 \<le> yv \<and> yv \<le> 9999)"






definition future_request :: request_data where
  "future_request = plain_request\<lparr>rq_date := Value (2027, 3, 15)\<rparr>"

definition future_vd :: validated_data where
  "future_vd = plain_vd\<lparr>vd_date := Some (2027, 3, 15)\<rparr>"

definition future_saved :: ConsumptionRecord where
  "future_saved = test_saved\<lparr>date := (2027, 3, 15)\<rparr>"

definition future_db :: database where
  "future_db = \<lparr>emission_factors = grid_only, consumption_records = [future_saved], next_pk = 5\<rparr>"

definition march_entry :: trend_entry where
  "march_entry =
     \<lparr>te_month = ''2027-03'', te_total_emissions = 146.94, te_electricity_emissions = 90,
      te_fuel_emissions = 44.31, te_water_emissions = 1.03, te_waste_emissions = 11.6\<rparr>"

definition future_stats :: Stats where
  "future_stats =
     \<lparr>st_total_emissions = 146.94, st_electricity_emissions = 90, st_fuel_emissions = 44.31,
      st_water_emissions = 1.03, st_waste_emissions = 11.6,
      st_department_breakdown = [(''LABS'', 146.94)],
      st_monthly_trend = [march_entry], st_record_count = 1\<rparr>"

text \<open>
  What a field of the record holds after the request's entries are assigned: the
  submitted value when the body holds one, the value that stood before otherwise.
\<close>

definition submitted_or :: "'a submitted \<Rightarrow> 'a \<Rightarrow> 'a" where
  "submitted_or s d = (case s of Value v \<Rightarrow> v | _ \<Rightarrow> d)"

definition forged_double :: request_data where
  "forged_double =
     double_request\<lparr>rq_electricity_emissions := Value 0, rq_fuel_emissions := Value 1,
                     rq_water_emissions := Malformed, rq_waste_emissions := Value (- 7),
                     rq_total_emissions := Value 0\<rparr>"

section \<open>The calculator's results\<close>

lemma calculate_emissions_fields:
  "electricity_emissions (calculate_emissions efs r) =
     electricity_kwh r * dict_get (factors_dict efs) ''GRID'' 0.82"
  "fuel_emissions (calculate_emissions efs r) =
     diesel_liters r * dict_get (factors_dict efs) ''DIESEL'' 2.68 +
     petrol_liters r * dict_get (factors_dict efs) ''PETROL'' 2.31 +
     lpg_kg r * dict_get (factors_dict efs) ''LPG'' 2.98"
  "water_emissions (calculate_emissions efs r) =
     water_kl r * dict_get (factors_dict efs) ''MUNICIPAL_WATER'' 0.344"
  "waste_emissions (calculate_emissions efs r) =
     waste_kg r * dict_get (factors_dict efs) ''GENERAL_WASTE'' 0.58"
  "total_emissions (calculate_emissions efs r) =
     electricity_emissions (calculate_emissions efs r) + fuel_emissions (calculate_emissions efs r) +
     water_emissions (calculate_emissions efs r) + waste_emissions (calculate_emissions efs r)"
  by (simp_all add: calculate_emissions_def Let_def)

lemma calculate_emissions_raw:
  "pk (calculate_emissions efs r) = pk r"
  "institute (calculate_emissions efs r) = institute r"
  "department (calculate_emissions efs r) = department r"
  "date (calculate_emissions efs r) = date r"
  "electricity_kwh (calculate_emissions efs r) = electricity_kwh r"
  "diesel_liters (calculate_emissions efs r) = diesel_liters r"
  "petrol_liters (calculate_emissions efs r) = petrol_liters r"
  "lpg_kg (calculate_emissions efs r) = lpg_kg r"
  "water_kl (calculate_emissions efs r) = water_kl r"
  "waste_kg (calculate_emissions efs r) = waste_kg r"
  by (simp_all add: calculate_emissions_def Let_def)

lemma factors_dict_Nil: "factors_dict [] = Map.empty"
  by (simp add: factors_dict_def)

lemma factors_dict_snoc:
  "factors_dict (efs @ [ef]) = (factors_dict efs)(sub_category ef \<mapsto> factor ef)"
  by (simp add: factors_dict_def)

lemma base_save_stores:
  assumes "base_save db r = (Inr r', db')"
  shows "r' \<in> set (consumption_records db') \<and> r' = r\<lparr>pk := pk r'\<rparr>"
  using assms
  by (auto simp: base_save_def Let_def list_ex_iff split: if_splits option.splits)

text \<open>
  Claim C1. Whenever a consumption record is saved, on creation or on update, the record
  written to the table carries derived fields computed from the raw quantities handed
  to \<open>save\<close> and the factor table of that moment: electricity is the kWh times the GRID
  factor, fuel is diesel times DIESEL plus petrol times PETROL plus LPG times LPG, water
  is the kilolitres times MUNICIPAL\_WATER, waste is the kilograms times GENERAL\_WASTE,
  and the total is the sum of the four. A sub-category the table does not hold counts
  with its hard-coded default (0.82, 2.68, 2.31, 2.98, 0.344, 0.58), so the calculation
  has a result whatever the table holds.
\<close>

theorem C1_saved_record_emissions:
  assumes "save db self = (Inr r, db')"
  shows "r \<in> set (consumption_records db') \<and>
         electricity_emissions r =
           electricity_kwh self *
             (case factors_dict (emission_factors db) ''GRID'' of None \<Rightarrow> 0.82 | Some v \<Rightarrow> v) \<and>
         fuel_emissions r =
           diesel_liters self *
             (case factors_dict (emission_factors db) ''DIESEL'' of None \<Rightarrow> 2.68 | Some v \<Rightarrow> v) +
           petrol_liters self *
             (case factors_dict (emission_factors db) ''PETROL'' of None \<Rightarrow> 2.31 | Some v \<Rightarrow> v) +
           lpg_kg self *
             (case factors_dict (emission_factors db) ''LPG'' of None \<Rightarrow> 2.98 | Some v \<Rightarrow> v) \<and>
         water_emissions r =
           water_kl self *
             (case factors_dict (emission_factors db) ''MUNICIPAL_WATER'' of None \<Rightarrow> 0.344 | Some v \<Rightarrow> v) \<and>
         waste_emissions r =
           waste_kg self *
             (case factors_dict (emission_factors db) ''GENERAL_WASTE'' of None \<Rightarrow> 0.58 | Some v \<Rightarrow> v) \<and>
         total_emissions r =
           electricity_emissions r + fuel_emissions r + water_emissions r + waste_emissions r"
proof -
  let ?c = "calculate_emissions (emission_factors db) self"
  from assms have "base_save db ?c = (Inr r, db')" by (simp add: save_def)
  from base_save_stores[OF this] have mem: "r \<in> set (consumption_records db')"
    and eq: "r = ?c\<lparr>pk := pk r\<rparr>" by blast+
  have "electricity_emissions r = electricity_emissions ?c" "fuel_emissions r = fuel_emissions ?c"
    "water_emissions r = water_emissions ?c" "waste_emissions r = waste_emissions ?c"
    "total_emissions r = total_emissions ?c"
    by (subst eq, simp)+
  with mem show ?thesis
    by (simp add: calculate_emissions_fields dict_get_def split: option.splits)
qed

text \<open>
  Claim C3. For the raw quantities electricity 100 kWh, diesel 10 l, petrol 5 l, LPG 2 kg,
  water 3 kl and waste 20 kg, the default factors give electricity 82.0, fuel 44.31,
  water 1.032, waste 11.6 and total 138.942. The default factors are the hard-coded ones
  (an empty factor table) and, with the same values, the seeded ones.
\<close>

theorem C3_test_vector:
  "electricity_emissions (calculate_emissions [] test_raw) = 82.0 \<and>
   fuel_emissions (calculate_emissions [] test_raw) = 44.31 \<and>
   water_emissions (calculate_emissions [] test_raw) = 1.032 \<and>
   waste_emissions (calculate_emissions [] test_raw) = 11.6 \<and>
   total_emissions (calculate_emissions [] test_raw) = 138.942 \<and>
   electricity_emissions (calculate_emissions seed_factors test_raw) = 82.0 \<and>
   fuel_emissions (calculate_emissions seed_factors test_raw) = 44.31 \<and>
   water_emissions (calculate_emissions seed_factors test_raw) = 1.032 \<and>
   waste_emissions (calculate_emissions seed_factors test_raw) = 11.6 \<and>
   total_emissions (calculate_emissions seed_factors test_raw) = 138.942"
  by (simp add: calculate_emissions_fields dict_get_def factors_dict_def seed_factors_def test_raw_def)


text \<open>
  The record of the test vector saved into an empty table whose factor table holds GRID
  alone, at 0.9: electricity uses 0.9, the other three the defaults.
\<close>

theorem C1_saved_record_emissions_witness:
  "save grid_db test_raw = (Inr test_saved, grid_db_saved) \<and>
   test_saved \<in> set (consumption_records grid_db_saved) \<and>
   electricity_emissions test_saved = 100 * 0.9 \<and>
   fuel_emissions test_saved = 10 * 2.68 + 5 * 2.31 + 2 * 2.98 \<and>
   water_emissions test_saved = 3 * 0.344 \<and>
   waste_emissions test_saved = 20 * 0.58 \<and>
   total_emissions test_saved = 90 + 44.31 + 1.032 + 11.6"
proof -
  have h: "save grid_db test_raw = (Inr test_saved, grid_db_saved)"
    by (simp add: save_def base_save_def violates_unique_def calculate_emissions_def Let_def
        dict_get_def factors_dict_def grid_db_def grid_only_def test_raw_def test_saved_def
        grid_db_saved_def)
  from C1_saved_record_emissions[OF h] h show ?thesis
    by (simp add: test_saved_def test_raw_def grid_db_saved_def)
qed

lemma calculate_emissions_cong:
  assumes "dict_get (factors_dict efs1) ''GRID'' 0.82 = dict_get (factors_dict efs2) ''GRID'' 0.82"
    and "dict_get (factors_dict efs1) ''DIESEL'' 2.68 = dict_get (factors_dict efs2) ''DIESEL'' 2.68"
    and "dict_get (factors_dict efs1) ''PETROL'' 2.31 = dict_get (factors_dict efs2) ''PETROL'' 2.31"
    and "dict_get (factors_dict efs1) ''LPG'' 2.98 = dict_get (factors_dict efs2) ''LPG'' 2.98"
    and "dict_get (factors_dict efs1) ''MUNICIPAL_WATER'' 0.344 =
         dict_get (factors_dict efs2) ''MUNICIPAL_WATER'' 0.344"
    and "dict_get (factors_dict efs1) ''GENERAL_WASTE'' 0.58 =
         dict_get (factors_dict efs2) ''GENERAL_WASTE'' 0.58"
  shows "calculate_emissions efs1 r = calculate_emissions efs2 r"
  unfolding calculate_emissions_def Let_def using assms by simp

text \<open>
  Claim C10. The calculator reads the factor table at six sub-categories only: two factor
  tables that give the same lookup at GRID, DIESEL, PETROL, LPG, MUNICIPAL\_WATER and
  GENERAL\_WASTE give the same result on every record, however they differ elsewhere.
\<close>

theorem C10_only_six_factors_matter:
  assumes "\<forall>k \<in> {''GRID'', ''DIESEL'', ''PETROL'', ''LPG'', ''MUNICIPAL_WATER'', ''GENERAL_WASTE''}.
             factors_dict efs1 k = factors_dict efs2 k"
  shows "calculate_emissions efs1 r = calculate_emissions efs2 r"
proof (rule calculate_emissions_cong)
qed (use assms in \<open>simp_all add: dict_get_def\<close>)

text \<open>
  The seeded table against a variant with other values at CNG and the three unused
  waste sub-categories and one more row.
\<close>

theorem C10_only_six_factors_matter_witness:
  "factors_dict seed_factors ''GRID'' = factors_dict seed_variant ''GRID'' \<and>
   factors_dict seed_factors ''DIESEL'' = factors_dict seed_variant ''DIESEL'' \<and>
   factors_dict seed_factors ''PETROL'' = factors_dict seed_variant ''PETROL'' \<and>
   factors_dict seed_factors ''LPG'' = factors_dict seed_variant ''LPG'' \<and>
   factors_dict seed_factors ''MUNICIPAL_WATER'' = factors_dict seed_variant ''MUNICIPAL_WATER'' \<and>
   factors_dict seed_factors ''GENERAL_WASTE'' = factors_dict seed_variant ''GENERAL_WASTE'' \<and>
   factors_dict seed_factors ''CNG'' = Some 2.75 \<and>
   factors_dict seed_variant ''CNG'' = Some 99 \<and>
   factors_dict seed_factors ''KEROSENE'' = None \<and>
   factors_dict seed_variant ''KEROSENE'' = Some 2.5 \<and>
   calculate_emissions seed_factors test_raw = calculate_emissions seed_variant test_raw"
proof -
  have h: "\<forall>k \<in> {''GRID'', ''DIESEL'', ''PETROL'', ''LPG'', ''MUNICIPAL_WATER'', ''GENERAL_WASTE''}.
      factors_dict seed_factors k = factors_dict seed_variant k"
    by (simp add: factors_dict_def seed_factors_def seed_variant_def)
  have d: "factors_dict seed_factors ''CNG'' = Some 2.75" "factors_dict seed_variant ''CNG'' = Some 99"
    "factors_dict seed_factors ''KEROSENE'' = None" "factors_dict seed_variant ''KEROSENE'' = Some 2.5"
    by (simp_all add: factors_dict_def seed_factors_def seed_variant_def)
  from C10_only_six_factors_matter[OF h, of test_raw] h d show ?thesis by simp
qed

section \<open>Saving through the API\<close>

lemma base_save_error:
  "base_save db r = (Inl e, db') \<Longrightarrow> db' = db \<and> e = IntegrityError"
  by (auto simp: base_save_def Let_def split: if_splits option.splits)

lemma save_error: "save db r = (Inl e, db') \<Longrightarrow> db' = db \<and> e = IntegrityError"
  unfolding save_def by (rule base_save_error)

lemma calculate_emissions_idem:
  "calculate_emissions efs (calculate_emissions efs r\<lparr>pk := p\<rparr>) = calculate_emissions efs r\<lparr>pk := p\<rparr>"
  by (simp add: calculate_emissions_def Let_def)

lemma save_stores:
  assumes "save db self = (Inr r, db')"
  shows "r \<in> set (consumption_records db')"
    and "r = calculate_emissions (emission_factors db) self\<lparr>pk := pk r\<rparr>"
    and "calculate_emissions (emission_factors db) r = r"
proof -
  from assms have "base_save db (calculate_emissions (emission_factors db) self) = (Inr r, db')"
    by (simp add: save_def)
  from base_save_stores[OF this]
  show "r \<in> set (consumption_records db')"
    and eq: "r = calculate_emissions (emission_factors db) self\<lparr>pk := pk r\<rparr>" by blast+
  show "calculate_emissions (emission_factors db) r = r"
    by (subst (1 2) eq) (rule calculate_emissions_idem)
qed

lemma save_factors: "emission_factors (snd (save db r)) = emission_factors db"
  by (simp add: save_def base_save_def Let_def split: option.splits)

lemma post_error: "post_consumption db user data = (Inl e, db') \<Longrightarrow> db' = db"
  by (auto simp: post_consumption_def create_def split: sum.splits option.splits dest: save_error)

lemma update_error: "update_consumption partial db user i data = (Inl e, db') \<Longrightarrow> db' = db"
  by (auto simp: update_consumption_def update_def split: sum.splits dest: save_error)

lemma post_stores:
  assumes "post_consumption db user data = (Inr r, db')"
  shows "r \<in> set (consumption_records db') \<and> calculate_emissions (emission_factors db) r = r"
  using assms
  by (auto simp: post_consumption_def create_def split: sum.splits option.splits
      dest: save_stores(1) save_stores(3))

lemma update_stores:
  assumes "update_consumption partial db user i data = (Inr r, db')"
  shows "r \<in> set (consumption_records db') \<and> calculate_emissions (emission_factors db) r = r"
  using assms
  by (auto simp: update_consumption_def update_def split: sum.splits
      dest: save_stores(1) save_stores(3))

lemma is_valid_ignores_derived:
  "is_valid partial (data\<lparr>rq_electricity_emissions := a, rq_fuel_emissions := b,
       rq_water_emissions := c, rq_waste_emissions := d, rq_total_emissions := t\<rparr>) =
   is_valid partial data"
  by (simp add: is_valid_def)

lemma valid_plain: "is_valid False plain_request = Inr plain_vd"
  by (simp add: is_valid_def run_field_def field_error_def field_value_def
      DEPARTMENT_CHOICES_def valid_date_def year_of_def month_of_def day_of_def days_in_month_def
      plain_request_def plain_vd_def)

lemma attrs_plain: "set_attrs plain_vd (new_instance 7 (2026, 10, 25)) = test_raw"
  by (simp add: set_attrs_def new_instance_def plain_vd_def test_raw_def)

lemma calc_plain: "calculate_emissions grid_only test_raw = test_saved\<lparr>pk := None\<rparr>"
  by (simp add: calculate_emissions_def Let_def dict_get_def factors_dict_def grid_only_def
      test_raw_def test_saved_def)

lemma base_save_plain: "base_save grid_db (test_saved\<lparr>pk := None\<rparr>) = (Inr test_saved, grid_db_saved)"
  by (simp add: base_save_def Let_def violates_unique_def grid_db_def grid_db_saved_def test_saved_def)

lemma post_plain: "post_consumption grid_db 7 plain_request = (Inr test_saved, grid_db_saved)"
proof -
  have "emission_factors grid_db = grid_only" by (simp add: grid_db_def)
  moreover have "vd_date plain_vd = Some (2026, 10, 25)" by (simp add: plain_vd_def)
  ultimately show ?thesis
    by (simp add: post_consumption_def valid_plain create_def attrs_plain save_def calc_plain
        base_save_plain)
qed


section \<open>Conflicts and updates\<close>

lemma filter_distinct_key:
  "distinct (map f xs) \<Longrightarrow> x \<in> set xs \<Longrightarrow> filter (\<lambda>y. f y = f x) xs = [x]"
proof (induction xs)
  case Nil
  then show ?case by simp
next
  case (Cons a xs)
  show ?case
  proof (cases "a = x")
    case True
    with Cons.prems have "\<forall>y \<in> set xs. f y \<noteq> f x" by (auto simp: image_iff)
    then have "filter (\<lambda>y. f y = f x) xs = []" by (simp add: filter_empty_conv)
    with True show ?thesis by simp
  next
    case False
    with Cons.prems have "x \<in> set xs" and "f a \<noteq> f x" by auto
    with Cons show ?thesis by simp
  qed
qed

lemma get_object_own:
  assumes "distinct (map pk (consumption_records db))" "x \<in> set (consumption_records db)"
    "pk x = Some i" "institute x = user"
  shows "get_object db user i = Inr x"
proof -
  have "filter (\<lambda>r. pk r = Some i) (get_queryset db user) =
        filter (\<lambda>r. institute r = user) (filter (\<lambda>r. pk r = pk x) (consumption_records db))"
    using assms(3) by (simp add: get_queryset_def conj_commute)
  also have "\<dots> = [x]"
    using filter_distinct_key[OF assms(1,2)] assms(4) by simp
  finally show ?thesis by (simp add: get_object_def)
qed

lemma violates_unique_iff:
  "violates_unique rows r \<longleftrightarrow>
     (\<exists>x \<in> set rows. pk x \<noteq> pk r \<and> unique_key x = unique_key r)"
  by (auto simp: violates_unique_def list_ex_iff unique_key_def)

lemma same_row_no_violation:
  assumes "distinct (map unique_key rows)" "x \<in> set rows"
    "unique_key r = unique_key x" "pk r = pk x"
  shows "\<not> violates_unique rows r"
proof
  assume "violates_unique rows r"
  then obtain y where y: "y \<in> set rows" "pk y \<noteq> pk r" "unique_key y = unique_key r"
    by (auto simp: violates_unique_iff)
  from assms(1) have "inj_on unique_key (set rows)" by (simp add: distinct_map)
  with y(1,3) assms(2,3) have "y = x" by (auto dest: inj_onD)
  with y(2) assms(4) show False by simp
qed

lemma wf_db_pk: "wf_db db \<Longrightarrow> x \<in> set (consumption_records db) \<Longrightarrow> \<exists>i. pk x = Some i \<and> i < next_pk db"
  by (auto simp: wf_db_def list_all_iff split: option.splits)

lemma post_consumption_valid:
  assumes "is_valid False data = Inr vd" "vd_date vd = Some d"
  shows "post_consumption db user data =
         base_save db (calculate_emissions (emission_factors db) (set_attrs vd (new_instance user d)))"
  using assms by (simp add: post_consumption_def create_def save_def)

lemma update_consumption_valid:
  assumes "get_object db user i = Inr x" "is_valid partial data = Inr vd"
  shows "update_consumption partial db user i data =
         base_save db (calculate_emissions (emission_factors db) (set_attrs vd x))"
  using assms by (simp add: update_consumption_def update_def save_def)

lemma is_valid_department:
  "is_valid partial data = Inr vd \<Longrightarrow> rq_department data = Value dep \<Longrightarrow> vd_department vd = Some dep"
  by (auto simp: is_valid_def Let_def run_field_def field_value_def field_error_def
      split: if_splits)

lemma is_valid_date:
  "is_valid partial data = Inr vd \<Longrightarrow> rq_date data = Value d \<Longrightarrow> vd_date vd = Some d"
  by (auto simp: is_valid_def Let_def run_field_def field_value_def field_error_def
      split: if_splits)

lemma set_attrs_key:
  "vd_department vd = Some dep \<Longrightarrow> vd_date vd = Some d \<Longrightarrow>
   unique_key (calculate_emissions efs (set_attrs vd r)) = (institute r, dep, d)"
  by (simp add: unique_key_def calculate_emissions_raw set_attrs_def)

lemma set_attrs_pk: "pk (calculate_emissions efs (set_attrs vd r)) = pk r"
  by (simp add: calculate_emissions_raw set_attrs_def)

text \<open>
  Claim C7. In a table that satisfies its constraints, let a record of the caller's be
  stored, and let a request name that record's department and date. Then a create
  request fails: with the validation error when the body is otherwise invalid, with the
  table's uniqueness conflict (\<open>IntegrityError\<close>) when it is valid, and in either case the
  table is left as it was. An update request for the stored record with a valid body
  succeeds: the record is replaced by the instance with the submitted values assigned
  and the emission fields recomputed by the calculator, every other row staying.
\<close>

theorem C7_duplicate_conflict_update_recomputes:
  assumes "wf_db db" "x \<in> set (consumption_records db)" "pk x = Some i" "institute x = user"
    and "rq_department data = Value (department x)" "rq_date data = Value (date x)"
  shows "post_consumption db user data =
           (case is_valid False data of
              Inl e \<Rightarrow> (Inl e, db)
            | Inr vd \<Rightarrow> (Inl IntegrityError, db)) \<and>
         update_consumption partial db user i data =
           (case is_valid partial data of
              Inl e \<Rightarrow> (Inl e, db)
            | Inr vd \<Rightarrow>
                (let r = calculate_emissions (emission_factors db) (set_attrs vd x)
                 in (Inr r, db\<lparr>consumption_records :=
                              map (\<lambda>y. if pk y = Some i then r else y) (consumption_records db)\<rparr>)))"
proof
  show "post_consumption db user data =
           (case is_valid False data of Inl e \<Rightarrow> (Inl e, db) | Inr vd \<Rightarrow> (Inl IntegrityError, db))"
  proof (cases "is_valid False data")
    case (Inl e)
    then show ?thesis by (simp add: post_consumption_def)
  next
    case (Inr vd)
    let ?r = "calculate_emissions (emission_factors db) (set_attrs vd (new_instance user (date x)))"
    from Inr assms(5,6) have vd: "vd_department vd = Some (department x)" "vd_date vd = Some (date x)"
      by (auto dest: is_valid_department is_valid_date)
    have "unique_key ?r = unique_key x"
      using set_attrs_key[OF vd] assms(4) by (simp add: unique_key_def new_instance_def)
    moreover have "pk ?r = None" by (simp add: set_attrs_pk new_instance_def)
    ultimately have "violates_unique (consumption_records db) ?r"
      using assms(2,3) by (auto simp: violates_unique_iff)
    then have "base_save db ?r = (Inl IntegrityError, db)" by (simp add: base_save_def)
    with Inr vd(2) show ?thesis by (simp add: post_consumption_valid)
  qed
next
  from assms(1) have d: "distinct (map pk (consumption_records db))"
    "distinct (map unique_key (consumption_records db))" by (simp_all add: wf_db_def)
  have g: "get_object db user i = Inr x" by (rule get_object_own[OF d(1) assms(2,3,4)])
  show "update_consumption partial db user i data =
           (case is_valid partial data of
              Inl e \<Rightarrow> (Inl e, db)
            | Inr vd \<Rightarrow>
                (let r = calculate_emissions (emission_factors db) (set_attrs vd x)
                 in (Inr r, db\<lparr>consumption_records :=
                              map (\<lambda>y. if pk y = Some i then r else y) (consumption_records db)\<rparr>)))"
  proof (cases "is_valid partial data")
    case (Inl e)
    with g show ?thesis by (simp add: update_consumption_def)
  next
    case (Inr vd)
    let ?r = "calculate_emissions (emission_factors db) (set_attrs vd x)"
    from Inr assms(5,6) have vd: "vd_department vd = Some (department x)" "vd_date vd = Some (date x)"
      by (auto dest: is_valid_department is_valid_date)
    have k: "unique_key ?r = unique_key x"
      using set_attrs_key[OF vd] by (simp add: unique_key_def)
    have p: "pk ?r = Some i" using assms(3) by (simp add: set_attrs_pk)
    have "\<not> violates_unique (consumption_records db) ?r"
      by (rule same_row_no_violation[OF d(2) assms(2) k]) (simp add: p assms(3))
    moreover have "list_ex (\<lambda>y. pk y = Some i) (consumption_records db)"
      using assms(2,3) by (auto simp: list_ex_iff)
    ultimately have "base_save db ?r =
        (Inr ?r, db\<lparr>consumption_records := map (\<lambda>y. if pk y = Some i then ?r else y) (consumption_records db)\<rparr>)"
      using p by (simp add: base_save_def Let_def)
    with Inr g show ?thesis by (simp add: update_consumption_valid Let_def)
  qed
qed


lemma wf_grid_db_saved: "wf_db grid_db_saved"
  by (simp add: wf_db_def grid_db_saved_def test_saved_def)

lemma valid_double: "is_valid partial double_request = Inr double_vd"
  by (simp add: is_valid_def run_field_def field_error_def field_value_def
      DEPARTMENT_CHOICES_def valid_date_def year_of_def month_of_def day_of_def days_in_month_def
      plain_request_def plain_vd_def double_request_def double_vd_def)

lemma attrs_double:
  "set_attrs double_vd test_saved = test_saved\<lparr>electricity_kwh := 200\<rparr>"
  by (simp add: set_attrs_def double_vd_def plain_vd_def test_saved_def test_raw_def)

lemma calc_double:
  "calculate_emissions grid_only (test_saved\<lparr>electricity_kwh := 200\<rparr>) = test_updated"
  by (simp add: calculate_emissions_def Let_def dict_get_def factors_dict_def grid_only_def
      test_raw_def test_saved_def test_updated_def)

text \<open>
  The stored test vector, and a body for its department and date with 200 kWh: the
  create is refused with the conflict, the PUT stores 180 for electricity in place of 90.
\<close>

theorem C7_duplicate_conflict_update_recomputes_witness:
  "wf_db grid_db_saved \<and> test_saved \<in> set (consumption_records grid_db_saved) \<and>
   pk test_saved = Some 4 \<and> institute test_saved = 7 \<and>
   rq_department double_request = Value (department test_saved) \<and>
   rq_date double_request = Value (date test_saved) \<and>
   post_consumption grid_db_saved 7 double_request = (Inl IntegrityError, grid_db_saved) \<and>
   update_consumption False grid_db_saved 7 4 double_request = (Inr test_updated, grid_db_updated) \<and>
   electricity_emissions test_saved = 90 \<and> electricity_emissions test_updated = 180"
proof -
  have h: "test_saved \<in> set (consumption_records grid_db_saved)" "pk test_saved = Some 4"
    "institute test_saved = 7"
    "rq_department double_request = Value (department test_saved)"
    "rq_date double_request = Value (date test_saved)"
    by (simp_all add: grid_db_saved_def test_saved_def test_raw_def double_request_def
        plain_request_def)
  note c = C7_duplicate_conflict_update_recomputes[OF wf_grid_db_saved h, of False]
  have e: "emission_factors grid_db_saved = grid_only"
    "consumption_records grid_db_saved = [test_saved]"
    by (simp_all add: grid_db_saved_def)
  from c have 1: "post_consumption grid_db_saved 7 double_request = (Inl IntegrityError, grid_db_saved)"
    by (simp add: valid_double)
  from c have 2: "update_consumption False grid_db_saved 7 4 double_request =
      (Inr test_updated, grid_db_updated)"
    by (simp add: valid_double e attrs_double calc_double h(2) grid_db_saved_def grid_db_updated_def)
  have 3: "electricity_emissions test_saved = 90" "electricity_emissions test_updated = 180"
    by (simp_all add: test_saved_def test_updated_def)
  show ?thesis
    using wf_grid_db_saved h 1 2 3 by (simp only: simp_thms)
qed

section \<open>Validation and rejection\<close>

lemma is_valid_create_accepts:
  assumes "rq_department data = Value dep" "dep \<in> set (map fst DEPARTMENT_CHOICES)"
    "rq_date data = Value d" "valid_date d"
    "rq_electricity_kwh data = Value q1" "rq_diesel_liters data = Value q2"
    "rq_petrol_liters data = Value q3" "rq_lpg_kg data = Value q4"
    "rq_water_kl data = Value q5" "rq_waste_kg data = Value q6"
  shows "is_valid partial data =
         Inr \<lparr>vd_department = Some dep, vd_date = Some d, vd_electricity_kwh = Some q1,
              vd_diesel_liters = Some q2, vd_petrol_liters = Some q3, vd_lpg_kg = Some q4,
              vd_water_kl = Some q5, vd_waste_kg = Some q6\<rparr>"
  using assms by (simp add: is_valid_def run_field_def field_error_def field_value_def)

lemma is_valid_patch_accepts:
  assumes "rq_department data = Missing" "rq_date data = Missing"
    "rq_electricity_kwh data = Value q1" "rq_diesel_liters data = Value q2"
    "rq_petrol_liters data = Value q3" "rq_lpg_kg data = Value q4"
    "rq_water_kl data = Value q5" "rq_waste_kg data = Value q6"
  shows "is_valid True data =
         Inr \<lparr>vd_department = None, vd_date = None, vd_electricity_kwh = Some q1,
              vd_diesel_liters = Some q2, vd_petrol_liters = Some q3, vd_lpg_kg = Some q4,
              vd_water_kl = Some q5, vd_waste_kg = Some q6\<rparr>"
  using assms by (simp add: is_valid_def run_field_def field_error_def field_value_def)

lemma create_accepted:
  assumes "rq_department data = Value dep" "dep \<in> set (map fst DEPARTMENT_CHOICES)"
    "rq_date data = Value d" "valid_date d"
    "rq_electricity_kwh data = Value q1" "rq_diesel_liters data = Value q2"
    "rq_petrol_liters data = Value q3" "rq_lpg_kg data = Value q4"
    "rq_water_kl data = Value q5" "rq_waste_kg data = Value q6"
    and free: "\<not> list_ex (\<lambda>x. institute x = user \<and> department x = dep \<and> date x = d)
                 (consumption_records db)"
  shows "\<exists>r. post_consumption db user data =
               (Inr r, db\<lparr>consumption_records := consumption_records db @ [r],
                          next_pk := next_pk db + 1\<rparr>) \<and>
             institute r = user \<and> department r = dep \<and> date r = d \<and>
             electricity_kwh r = q1 \<and> diesel_liters r = q2 \<and> petrol_liters r = q3 \<and>
             lpg_kg r = q4 \<and> water_kl r = q5 \<and> waste_kg r = q6"
proof -
  let ?vd = "\<lparr>vd_department = Some dep, vd_date = Some d, vd_electricity_kwh = Some q1,
              vd_diesel_liters = Some q2, vd_petrol_liters = Some q3, vd_lpg_kg = Some q4,
              vd_water_kl = Some q5, vd_waste_kg = Some q6\<rparr>"
  let ?r = "calculate_emissions (emission_factors db) (set_attrs ?vd (new_instance user d))"
  have v: "is_valid False data = Inr ?vd" by (rule is_valid_create_accepts[OF assms(1-10)])
  have raw: "pk ?r = None" "institute ?r = user" "department ?r = dep" "date ?r = d"
    "electricity_kwh ?r = q1" "diesel_liters ?r = q2" "petrol_liters ?r = q3"
    "lpg_kg ?r = q4" "water_kl ?r = q5" "waste_kg ?r = q6"
    by (simp_all add: calculate_emissions_raw set_attrs_def new_instance_def)
  from free raw(2-4) have "\<not> violates_unique (consumption_records db) ?r"
    by (auto simp: violates_unique_def list_ex_iff)
  with raw(1) have "base_save db ?r =
      (Inr (?r\<lparr>pk := Some (next_pk db)\<rparr>),
       db\<lparr>consumption_records := consumption_records db @ [?r\<lparr>pk := Some (next_pk db)\<rparr>],
          next_pk := next_pk db + 1\<rparr>)"
    by (simp add: base_save_def Let_def)
  then have "post_consumption db user data =
      (Inr (?r\<lparr>pk := Some (next_pk db)\<rparr>),
       db\<lparr>consumption_records := consumption_records db @ [?r\<lparr>pk := Some (next_pk db)\<rparr>],
          next_pk := next_pk db + 1\<rparr>)"
    using post_consumption_valid[OF v, of d db user] by simp
  moreover have "institute (?r\<lparr>pk := Some (next_pk db)\<rparr>) = user"
    "department (?r\<lparr>pk := Some (next_pk db)\<rparr>) = dep" "date (?r\<lparr>pk := Some (next_pk db)\<rparr>) = d"
    "electricity_kwh (?r\<lparr>pk := Some (next_pk db)\<rparr>) = q1"
    "diesel_liters (?r\<lparr>pk := Some (next_pk db)\<rparr>) = q2"
    "petrol_liters (?r\<lparr>pk := Some (next_pk db)\<rparr>) = q3"
    "lpg_kg (?r\<lparr>pk := Some (next_pk db)\<rparr>) = q4" "water_kl (?r\<lparr>pk := Some (next_pk db)\<rparr>) = q5"
    "waste_kg (?r\<lparr>pk := Some (next_pk db)\<rparr>) = q6"
    using raw by simp_all
  ultimately show ?thesis by blast
qed

lemma patch_accepted:
  assumes "wf_db db" "x \<in> set (consumption_records db)" "pk x = Some i" "institute x = user"
    "rq_department data = Missing" "rq_date data = Missing"
    "rq_electricity_kwh data = Value q1" "rq_diesel_liters data = Value q2"
    "rq_petrol_liters data = Value q3" "rq_lpg_kg data = Value q4"
    "rq_water_kl data = Value q5" "rq_waste_kg data = Value q6"
  shows "\<exists>r. update_consumption True db user i data =
               (Inr r, db\<lparr>consumption_records :=
                            map (\<lambda>y. if pk y = Some i then r else y) (consumption_records db)\<rparr>) \<and>
             electricity_kwh r = q1 \<and> diesel_liters r = q2 \<and> petrol_liters r = q3 \<and>
             lpg_kg r = q4 \<and> water_kl r = q5 \<and> waste_kg r = q6"
proof -
  let ?vd = "\<lparr>vd_department = None, vd_date = None, vd_electricity_kwh = Some q1,
              vd_diesel_liters = Some q2, vd_petrol_liters = Some q3, vd_lpg_kg = Some q4,
              vd_water_kl = Some q5, vd_waste_kg = Some q6\<rparr>"
  let ?r = "calculate_emissions (emission_factors db) (set_attrs ?vd x)"
  from assms(1) have d: "distinct (map pk (consumption_records db))"
    "distinct (map unique_key (consumption_records db))" by (simp_all add: wf_db_def)
  have g: "get_object db user i = Inr x" by (rule get_object_own[OF d(1) assms(2,3,4)])
  have v: "is_valid True data = Inr ?vd" by (rule is_valid_patch_accepts[OF assms(5-12)])
  have raw: "pk ?r = Some i" "unique_key ?r = unique_key x"
    "electricity_kwh ?r = q1" "diesel_liters ?r = q2" "petrol_liters ?r = q3"
    "lpg_kg ?r = q4" "water_kl ?r = q5" "waste_kg ?r = q6"
    using assms(3) by (simp_all add: calculate_emissions_raw set_attrs_def unique_key_def)
  have "\<not> violates_unique (consumption_records db) ?r"
    by (rule same_row_no_violation[OF d(2) assms(2) raw(2)]) (simp add: raw(1) assms(3))
  moreover have "list_ex (\<lambda>y. pk y = Some i) (consumption_records db)"
    using assms(2,3) by (auto simp: list_ex_iff)
  ultimately have "base_save db ?r =
      (Inr ?r, db\<lparr>consumption_records := map (\<lambda>y. if pk y = Some i then ?r else y) (consumption_records db)\<rparr>)"
    using raw(1) by (simp add: base_save_def Let_def)
  then have "update_consumption True db user i data =
      (Inr ?r, db\<lparr>consumption_records := map (\<lambda>y. if pk y = Some i then ?r else y) (consumption_records db)\<rparr>)"
    using update_consumption_valid[OF g v] by simp
  with raw(3-8) show ?thesis by blast
qed

text \<open>
  Claim C6, as the code has it. A rejected create or update request leaves the store
  unchanged. The sign of a raw quantity is no ground for rejection: the six quantities
  carry no validator, so a create request with a department among the choices, a valid
  date and six numeric quantities of any sign is accepted whenever the caller has no
  record for that department and date, and a partial update of the six quantities of a
  record of the caller's own is accepted; the record is stored with the quantities as
  submitted.
\<close>

theorem C6_rejection_atomic_sign_unchecked:
  "(post_consumption db user data = (Inl e, db') \<longrightarrow> db' = db) \<and>
   (update_consumption partial db user i data = (Inl e, db') \<longrightarrow> db' = db) \<and>
   (rq_department data = Value dep \<and> dep \<in> set (map fst DEPARTMENT_CHOICES) \<and>
    rq_date data = Value d \<and> valid_date d \<and>
    rq_electricity_kwh data = Value q1 \<and> rq_diesel_liters data = Value q2 \<and>
    rq_petrol_liters data = Value q3 \<and> rq_lpg_kg data = Value q4 \<and>
    rq_water_kl data = Value q5 \<and> rq_waste_kg data = Value q6 \<and>
    \<not> list_ex (\<lambda>x. institute x = user \<and> department x = dep \<and> date x = d)
         (consumption_records db) \<longrightarrow>
    (\<exists>r. post_consumption db user data =
            (Inr r, db\<lparr>consumption_records := consumption_records db @ [r],
                       next_pk := next_pk db + 1\<rparr>) \<and>
          institute r = user \<and> department r = dep \<and> date r = d \<and>
          electricity_kwh r = q1 \<and> diesel_liters r = q2 \<and> petrol_liters r = q3 \<and>
          lpg_kg r = q4 \<and> water_kl r = q5 \<and> waste_kg r = q6)) \<and>
   (wf_db db \<and> x \<in> set (consumption_records db) \<and> pk x = Some i \<and> institute x = user \<and>
    rq_department data = Missing \<and> rq_date data = Missing \<and>
    rq_electricity_kwh data = Value q1 \<and> rq_diesel_liters data = Value q2 \<and>
    rq_petrol_liters data = Value q3 \<and> rq_lpg_kg data = Value q4 \<and>
    rq_water_kl data = Value q5 \<and> rq_waste_kg data = Value q6 \<longrightarrow>
    (\<exists>r. update_consumption True db user i data =
            (Inr r, db\<lparr>consumption_records :=
                         map (\<lambda>y. if pk y = Some i then r else y) (consumption_records db)\<rparr>) \<and>
          electricity_kwh r = q1 \<and> diesel_liters r = q2 \<and> petrol_liters r = q3 \<and>
          lpg_kg r = q4 \<and> water_kl r = q5 \<and> waste_kg r = q6))"
  apply (intro conjI impI)
     apply (erule post_error)
    apply (erule update_error)
   apply (elim conjE, (rule create_accepted; assumption))
  apply (elim conjE, (rule patch_accepted; assumption))
  done


lemma valid_negative: "is_valid False negative_request = Inr negative_vd"
  by (simp add: is_valid_def run_field_def field_error_def field_value_def
      DEPARTMENT_CHOICES_def valid_date_def year_of_def month_of_def day_of_def days_in_month_def
      plain_request_def plain_vd_def negative_request_def negative_vd_def)

lemma attrs_negative:
  "set_attrs negative_vd (new_instance 7 (2026, 10, 25)) = test_raw\<lparr>electricity_kwh := - 100\<rparr>"
  by (simp add: set_attrs_def new_instance_def negative_vd_def plain_vd_def test_raw_def)

lemma calc_negative:
  "calculate_emissions grid_only (test_raw\<lparr>electricity_kwh := - 100\<rparr>) = negative_saved\<lparr>pk := None\<rparr>"
  by (simp add: calculate_emissions_def Let_def dict_get_def factors_dict_def grid_only_def
      test_raw_def negative_saved_def)

lemma base_save_negative:
  "base_save grid_db (negative_saved\<lparr>pk := None\<rparr>) = (Inr negative_saved, negative_db)"
  by (simp add: base_save_def Let_def violates_unique_def grid_db_def negative_db_def
      negative_saved_def)

lemma base_save_negative_again:
  "base_save grid_db_saved (negative_saved\<lparr>pk := None\<rparr>) = (Inl IntegrityError, grid_db_saved)"
  by (simp add: base_save_def Let_def violates_unique_def grid_db_saved_def test_saved_def
      test_raw_def negative_saved_def)

lemma post_negative:
  "post_consumption grid_db 7 negative_request = (Inr negative_saved, negative_db)"
proof -
  have "emission_factors grid_db = grid_only" by (simp add: grid_db_def)
  moreover have "vd_date negative_vd = Some (2026, 10, 25)"
    by (simp add: negative_vd_def plain_vd_def)
  ultimately show ?thesis
    by (simp add: post_consumption_def valid_negative create_def attrs_negative save_def
        calc_negative base_save_negative)
qed

lemma post_negative_again:
  "post_consumption grid_db_saved 7 negative_request = (Inl IntegrityError, grid_db_saved)"
proof -
  have "emission_factors grid_db_saved = grid_only" by (simp add: grid_db_saved_def)
  moreover have "vd_date negative_vd = Some (2026, 10, 25)"
    by (simp add: negative_vd_def plain_vd_def)
  ultimately show ?thesis
    by (simp add: post_consumption_def valid_negative create_def attrs_negative save_def
        calc_negative base_save_negative_again)
qed

text \<open>
  Claim C6 as stated fails: a create request with \<open>electricity_kwh\<close> = -100 into the empty
  table is accepted, a record with that quantity and a negative total is stored.
\<close>

theorem C6_negative_quantity_counterexample:
  "rq_electricity_kwh negative_request = Value (- 100) \<and>
   consumption_records grid_db = [] \<and>
   post_consumption grid_db 7 negative_request = (Inr negative_saved, negative_db) \<and>
   consumption_records negative_db = [negative_saved] \<and>
   electricity_kwh negative_saved = - 100 \<and>
   total_emissions negative_saved = - 33.058"
  using post_negative
  by (simp add: negative_request_def grid_db_def negative_db_def negative_saved_def)

text \<open>
  The same request against the table that already holds the triple is rejected and
  leaves the table as it was; against the empty table it is accepted; a PATCH with six
  negative quantities on the stored record is accepted.
\<close>

theorem C6_rejection_atomic_sign_unchecked_witness:
  "post_consumption grid_db_saved 7 negative_request = (Inl IntegrityError, grid_db_saved) \<and>
   rq_electricity_kwh negative_request = Value (- 100) \<and>
   post_consumption grid_db 7 negative_request = (Inr negative_saved, negative_db) \<and>
   electricity_kwh negative_saved = - 100 \<and>
   (\<exists>r db'. update_consumption True grid_db_saved 7 4 negative_patch = (Inr r, db') \<and>
            electricity_kwh r = - 1 \<and> waste_kg r = - 6)"
proof -
  have rq: "rq_department negative_request = Value ''LABS''"
    "''LABS'' \<in> set (map fst DEPARTMENT_CHOICES)"
    "rq_date negative_request = Value (2026, 10, 25)" "valid_date (2026, 10, 25)"
    "rq_electricity_kwh negative_request = Value (- 100)"
    "rq_diesel_liters negative_request = Value 10" "rq_petrol_liters negative_request = Value 5"
    "rq_lpg_kg negative_request = Value 2" "rq_water_kl negative_request = Value 3"
    "rq_waste_kg negative_request = Value 20"
    "\<not> list_ex (\<lambda>x. institute x = 7 \<and> department x = ''LABS'' \<and> date x = (2026, 10, 25))
         (consumption_records grid_db)"
    by (simp_all add: negative_request_def plain_request_def DEPARTMENT_CHOICES_def valid_date_def
        year_of_def month_of_def day_of_def days_in_month_def grid_db_def)
  have pq: "test_saved \<in> set (consumption_records grid_db_saved)" "pk test_saved = Some 4"
    "institute test_saved = 7"
    "rq_department negative_patch = Missing" "rq_date negative_patch = Missing"
    "rq_electricity_kwh negative_patch = Value (- 1)" "rq_diesel_liters negative_patch = Value (- 2)"
    "rq_petrol_liters negative_patch = Value (- 3)" "rq_lpg_kg negative_patch = Value (- 4)"
    "rq_water_kl negative_patch = Value (- 5)" "rq_waste_kg negative_patch = Value (- 6)"
    by (simp_all add: negative_patch_def grid_db_saved_def test_saved_def test_raw_def)
  note a = C6_rejection_atomic_sign_unchecked[where db = grid_db and user = 7
      and data = negative_request and dep = "''LABS''" and d = "(2026, 10, 25)"
      and ?q1.0 = "- 100" and ?q2.0 = 10 and ?q3.0 = 5 and ?q4.0 = 2 and ?q5.0 = 3 and ?q6.0 = 20]
  from a rq obtain r where
    r: "post_consumption grid_db 7 negative_request =
          (Inr r, grid_db\<lparr>consumption_records := consumption_records grid_db @ [r],
                         next_pk := next_pk grid_db + 1\<rparr>)"
       "electricity_kwh r = - 100"
    by blast
  from r(1) post_negative have "r = negative_saved" by simp
  with r(2) have 1: "electricity_kwh negative_saved = - 100" by simp
  note b = C6_rejection_atomic_sign_unchecked[where db = grid_db_saved and user = 7
      and data = negative_patch and x = test_saved and i = 4
      and ?q1.0 = "- 1" and ?q2.0 = "- 2" and ?q3.0 = "- 3" and ?q4.0 = "- 4"
      and ?q5.0 = "- 5" and ?q6.0 = "- 6"]
  from b wf_grid_db_saved pq
  have 2: "\<exists>r db'. update_consumption True grid_db_saved 7 4 negative_patch = (Inr r, db') \<and>
            electricity_kwh r = - 1 \<and> waste_kg r = - 6"
    by blast
  show ?thesis
    using post_negative_again rq(5) post_negative 1 2 by (simp only: simp_thms)
qed

section \<open>Changing the factor table\<close>

lemma change_factor_records:
  "consumption_records (change_factor db c s v) = consumption_records db"
  by (simp add: change_factor_def)

lemma handle_records: "consumption_records (snd (handle db)) = consumption_records db"
  by (simp add: handle_def split: prod.splits)

lemma filter_replace_others:
  "filter (\<lambda>y. f y \<noteq> k) (map (\<lambda>x. if f x = k then r else x) xs) =
   (if f r = k then filter (\<lambda>y. f y \<noteq> k) xs
    else map (\<lambda>x. if f x = k then r else x) xs)"
  by (induction xs) auto

lemma base_save_others:
  assumes "base_save db r = (res, db')" "pk r = Some i"
  shows "filter (\<lambda>y. pk y \<noteq> Some i) (consumption_records db') =
         filter (\<lambda>y. pk y \<noteq> Some i) (consumption_records db)"
  using assms
  by (auto simp: base_save_def Let_def filter_replace_others split: if_splits)

lemma base_save_prefix:
  assumes "base_save db r = (res, db')" "pk r = None"
  shows "take (length (consumption_records db)) (consumption_records db') = consumption_records db"
  using assms by (auto simp: base_save_def Let_def split: if_splits)

lemma get_object_pk: "get_object db user i = Inr x \<Longrightarrow> pk x = Some i"
proof -
  assume a: "get_object db user i = Inr x"
  then obtain xs where "filter (\<lambda>r. pk r = Some i) (get_queryset db user) = x # xs"
    by (auto simp: get_object_def split: list.splits)
  then have "x \<in> set (filter (\<lambda>r. pk r = Some i) (get_queryset db user))" by simp
  then show ?thesis by simp
qed

lemma update_others:
  assumes "update_consumption partial db user i data = (res, db')"
  shows "filter (\<lambda>y. pk y \<noteq> Some i) (consumption_records db') =
         filter (\<lambda>y. pk y \<noteq> Some i) (consumption_records db)"
proof (cases "get_object db user i")
  case (Inl e)
  with assms show ?thesis by (simp add: update_consumption_def)
next
  case (Inr x)
  note g = this
  show ?thesis
  proof (cases "is_valid partial data")
    case (Inl e)
    with assms g show ?thesis by (simp add: update_consumption_def)
  next
    case (Inr vd)
    with assms g have "base_save db (calculate_emissions (emission_factors db) (set_attrs vd x)) = (res, db')"
      by (simp add: update_consumption_valid)
    moreover have "pk (calculate_emissions (emission_factors db) (set_attrs vd x)) = Some i"
      using get_object_pk[OF g] by (simp add: set_attrs_pk)
    ultimately show ?thesis by (rule base_save_others)
  qed
qed

lemma post_prefix:
  assumes "post_consumption db user data = (res, db')"
  shows "take (length (consumption_records db)) (consumption_records db') = consumption_records db"
proof (cases "is_valid False data")
  case (Inl e)
  with assms show ?thesis by (simp add: post_consumption_def)
next
  case (Inr vd)
  show ?thesis
  proof (cases "vd_date vd")
    case None
    with assms Inr show ?thesis by (simp add: post_consumption_def create_def)
  next
    case (Some d)
    with assms Inr
    have "base_save db (calculate_emissions (emission_factors db) (set_attrs vd (new_instance user d))) = (res, db')"
      by (simp add: post_consumption_valid)
    moreover have "pk (calculate_emissions (emission_factors db) (set_attrs vd (new_instance user d))) = None"
      by (simp add: set_attrs_pk new_instance_def)
    ultimately show ?thesis by (rule base_save_prefix)
  qed
qed

text \<open>
  Claim C2. A change of a factor's value, by an administrator's edit or by the seeding
  command, leaves the table of consumption records as it was: every stored emission
  field keeps its value. Afterwards an update of one record changes no record with
  another key, a create changes no record that was stored before it, and the record
  such a request stores is the calculator's result under the changed factor table.
\<close>

theorem C2_factor_change_frozen_snapshot:
  "consumption_records (change_factor db c s v) = consumption_records db \<and>
   consumption_records (snd (handle db)) = consumption_records db \<and>
   (update_consumption partial (change_factor db c s v) user i data = (res, db') \<longrightarrow>
      filter (\<lambda>y. pk y \<noteq> Some i) (consumption_records db') =
      filter (\<lambda>y. pk y \<noteq> Some i) (consumption_records db) \<and>
      (\<forall>r. res = Inr r \<longrightarrow>
           r \<in> set (consumption_records db') \<and>
           calculate_emissions (emission_factors (change_factor db c s v)) r = r)) \<and>
   (post_consumption (change_factor db c s v) user data = (res, db') \<longrightarrow>
      take (length (consumption_records db)) (consumption_records db') = consumption_records db \<and>
      (\<forall>r. res = Inr r \<longrightarrow>
           r \<in> set (consumption_records db') \<and>
           calculate_emissions (emission_factors (change_factor db c s v)) r = r))"
proof (intro conjI impI allI)
  show "consumption_records (change_factor db c s v) = consumption_records db"
    by (rule change_factor_records)
  show "consumption_records (snd (handle db)) = consumption_records db"
    by (rule handle_records)
next
  assume a: "update_consumption partial (change_factor db c s v) user i data = (res, db')"
  from update_others[OF a]
  show "filter (\<lambda>y. pk y \<noteq> Some i) (consumption_records db') =
        filter (\<lambda>y. pk y \<noteq> Some i) (consumption_records db)"
    by (simp add: change_factor_records)
  fix r assume "res = Inr r"
  with a update_stores[of partial "change_factor db c s v" user i data r db']
  show "r \<in> set (consumption_records db')"
    and "calculate_emissions (emission_factors (change_factor db c s v)) r = r"
    by simp_all
next
  assume a: "post_consumption (change_factor db c s v) user data = (res, db')"
  from post_prefix[OF a]
  show "take (length (consumption_records db)) (consumption_records db') = consumption_records db"
    by (simp add: change_factor_records)
  fix r assume "res = Inr r"
  with a post_stores[of "change_factor db c s v" user data r db']
  show "r \<in> set (consumption_records db')"
    and "calculate_emissions (emission_factors (change_factor db c s v)) r = r"
    by simp_all
qed


lemma change_grid: "change_factor grid_db_saved ''ELECTRICITY'' ''GRID'' 0.5 = halved_db"
  by (simp add: change_factor_def grid_db_saved_def grid_only_def halved_grid_def halved_db_def)

lemma get_halved: "get_object halved_db 7 4 = Inr test_saved"
  by (simp add: get_object_def get_queryset_def halved_db_def test_saved_def test_raw_def)

lemma valid_empty_patch: "is_valid True empty_patch = Inr empty_vd"
  by (simp add: is_valid_def run_field_def field_error_def field_value_def empty_patch_def
      empty_vd_def)

lemma attrs_empty: "set_attrs empty_vd r = r"
  by (simp add: set_attrs_def empty_vd_def)

lemma calc_halved: "calculate_emissions halved_grid test_saved = test_refreshed"
  by (simp add: calculate_emissions_def Let_def dict_get_def factors_dict_def halved_grid_def
      test_raw_def test_saved_def test_refreshed_def)

lemma base_save_halved: "base_save halved_db test_refreshed = (Inr test_refreshed, halved_db_refreshed)"
  by (simp add: base_save_def Let_def violates_unique_def halved_db_def halved_db_refreshed_def
      test_refreshed_def test_saved_def test_raw_def)

lemma patch_halved:
  "update_consumption True halved_db 7 4 empty_patch = (Inr test_refreshed, halved_db_refreshed)"
proof -
  have "emission_factors halved_db = halved_grid" by (simp add: halved_db_def)
  then show ?thesis
    by (simp add: update_consumption_valid[OF get_halved valid_empty_patch] attrs_empty
        calc_halved base_save_halved)
qed

text \<open>
  The stored test vector was computed with GRID at 0.9. After the factor is set to 0.5
  the record still holds 90 for electricity; an empty PATCH of the record stores 50.
\<close>

theorem C2_factor_change_frozen_snapshot_witness:
  "consumption_records grid_db_saved = [test_saved] \<and>
   consumption_records (change_factor grid_db_saved ''ELECTRICITY'' ''GRID'' 0.5) = [test_saved] \<and>
   factors_dict (emission_factors grid_db_saved) ''GRID'' = Some 0.9 \<and>
   factors_dict (emission_factors (change_factor grid_db_saved ''ELECTRICITY'' ''GRID'' 0.5)) ''GRID'' =
     Some 0.5 \<and>
   electricity_emissions test_saved = 90 \<and>
   update_consumption True (change_factor grid_db_saved ''ELECTRICITY'' ''GRID'' 0.5) 7 4 empty_patch =
     (Inr test_refreshed, halved_db_refreshed) \<and>
   electricity_emissions test_refreshed = 50 \<and>
   test_refreshed \<in> set (consumption_records halved_db_refreshed) \<and>
   calculate_emissions (emission_factors (change_factor grid_db_saved ''ELECTRICITY'' ''GRID'' 0.5))
     test_refreshed = test_refreshed"
proof -
  note c = C2_factor_change_frozen_snapshot[where db = grid_db_saved and c = "''ELECTRICITY''"
      and s = "''GRID''" and v = "0.5" and partial = True and user = 7 and i = 4
      and data = empty_patch and res = "Inr test_refreshed" and db' = halved_db_refreshed]
  have p: "update_consumption True (change_factor grid_db_saved ''ELECTRICITY'' ''GRID'' 0.5) 7 4
             empty_patch = (Inr test_refreshed, halved_db_refreshed)"
    by (simp only: change_grid patch_halved)
  have 1: "consumption_records grid_db_saved = [test_saved]" by (simp add: grid_db_saved_def)
  from c 1 have 2: "consumption_records (change_factor grid_db_saved ''ELECTRICITY'' ''GRID'' 0.5) =
      [test_saved]" by simp
  from c p have 3: "test_refreshed \<in> set (consumption_records halved_db_refreshed)"
    "calculate_emissions (emission_factors (change_factor grid_db_saved ''ELECTRICITY'' ''GRID'' 0.5))
       test_refreshed = test_refreshed"
    by blast+
  have 4: "factors_dict (emission_factors grid_db_saved) ''GRID'' = Some 0.9"
    "factors_dict (emission_factors (change_factor grid_db_saved ''ELECTRICITY'' ''GRID'' 0.5)) ''GRID'' =
     Some 0.5"
    unfolding change_grid
    by (simp_all add: factors_dict_def grid_db_saved_def grid_only_def halved_db_def
        halved_grid_def)
  have 5: "electricity_emissions test_saved = 90" "electricity_emissions test_refreshed = 50"
    by (simp_all add: test_saved_def test_refreshed_def)
  show ?thesis
    using 1 2 3 4 5 p by (simp only: simp_thms)
qed

section \<open>The dashboard's results\<close>

lemma or0_Sum_agg: "or0 (Sum_agg f rows) = sum_list (map f rows)"
  by (simp add: or0_def Sum_agg_def)


lemma filtered_records_eq:
  assumes "parse_param year = Inr y" "parse_param month = Inr m" "year_in_range y"
  shows "filtered_records db user year month =
         Inr (filter (in_filter user y m) (consumption_records db))"
  using assms
  by (cases y; cases m)
     (auto simp: filtered_records_def year_in_range_def in_filter_def[abs_def] intro: filter_cong)

lemma department_breakdown_eq:
  "department_breakdown records =
     map (\<lambda>d. (d, py_round (sum_list (map total_emissions (filter (\<lambda>r. department r = d) records))) 2))
         (sort (remdups (map department records)))"
  by (simp add: department_breakdown_def department_data_def or0_Sum_agg comp_def)

lemma stats_of_filtered:
  assumes "filtered_records db user year month = Inr records" "minus_days today 365 = Some c"
  shows "DashboardStatsView_get db user today year month =
         Inr \<lparr>st_total_emissions = py_round (sum_list (map total_emissions records)) 2,
              st_electricity_emissions = py_round (sum_list (map electricity_emissions records)) 2,
              st_fuel_emissions = py_round (sum_list (map fuel_emissions records)) 2,
              st_water_emissions = py_round (sum_list (map water_emissions records)) 2,
              st_waste_emissions = py_round (sum_list (map waste_emissions records)) 2,
              st_department_breakdown = department_breakdown records,
              st_monthly_trend = map trend_item (monthly_data db user c),
              st_record_count = length records\<rparr>"
  using assms by (simp add: DashboardStatsView_get_def or0_Sum_agg)


lemma stats_year_out_of_range:
  assumes "parse_param year = Inr (Some yv)" "parse_param month = Inr m" "\<not> (1 \<le> yv \<and> yv \<le> 9999)"
  shows "DashboardStatsView_get db user today year month = Inl ValueError"
  using assms by (cases m) (auto simp: DashboardStatsView_get_def filtered_records_def)



subsection \<open>The view on the stored test vector\<close>

lemma today_minus_365: "minus_days (2026, 11, 4) 365 = Some (2025, 11, 4)"
  by code_simp

lemma parse_texts:
  "parse_param None = Inr None"
  "parse_param (Some ''1999'') = Inr (Some 1999)"
  "parse_param (Some ''2026'') = Inr (Some 2026)"
  "parse_param (Some ''10'') = Inr (Some 10)"
  "parse_param (Some ''1'') = Inr (Some 1)"
  by (simp add: parse_param_def, code_simp+)










subsection \<open>An empty filtered set\<close>









subsection \<open>The monthly trend\<close>

text \<open>
  What the trend query gives: one row per month in which the institute has a record
  dated on the cut-off date or later, the months in ascending order and without
  repetition. A record dated 400 days before today is not among the records of the
  trend, one dated 10 days before today is.
\<close>

lemma monthly_months:
  "map mr_month (monthly_data db user c) =
   sort (remdups (map (\<lambda>r. TruncMonth (date r)) (trend_records db user c)))"
  by (simp add: monthly_data_def Let_def comp_def)

lemma monthly_sorted_distinct:
  "sorted (map mr_month (monthly_data db user c)) \<and> distinct (map mr_month (monthly_data db user c))"
  by (simp add: monthly_months)

lemma monthly_month_iff:
  "m \<in> set (map mr_month (monthly_data db user c)) \<longleftrightarrow>
   (\<exists>r \<in> set (consumption_records db). institute r = user \<and> c \<le> date r \<and> TruncMonth (date r) = m)"
  unfolding monthly_months by (auto simp: trend_records_def)

lemma prev_day_less: "prev_day d = Some p \<Longrightarrow> p < d"
  by (cases d) (auto split: if_splits)

lemma minus_days_add:
  "minus_days d (n + k) = (case minus_days d n of None \<Rightarrow> None | Some p \<Rightarrow> minus_days p k)"
  by (induction n arbitrary: d) (auto split: option.splits)

lemma minus_days_less: "minus_days d n = Some p \<Longrightarrow> 0 < n \<Longrightarrow> p < d"
proof (induction n arbitrary: d)
  case 0
  then show ?case by simp
next
  case (Suc n)
  from Suc.prems(1) obtain q where q: "prev_day d = Some q" "minus_days q n = Some p"
    by (auto split: option.splits)
  show ?case
  proof (cases n)
    case 0
    with q show ?thesis by (simp add: prev_day_less)
  next
    case (Suc k)
    with Suc.IH[OF q(2)] have "p < q" by simp
    with prev_day_less[OF q(1)] show ?thesis by simp
  qed
qed

lemma window_400_excluded:
  assumes "minus_days today 365 = Some c" "minus_days today 400 = Some old" "date r = old"
  shows "r \<notin> set (trend_records db user c)"
proof -
  have "minus_days today (365 + 35) = Some old" using assms(2) by simp
  then have "minus_days c 35 = Some old" by (simp only: minus_days_add assms(1) option.case)
  then have "old < c" by (rule minus_days_less) simp
  then have "\<not> c \<le> old" by (simp add: not_le)
  with assms(3) show ?thesis by (simp add: trend_records_def)
qed

lemma window_10_included:
  assumes "minus_days today 365 = Some c" "minus_days today 10 = Some recent" "date r = recent"
    "r \<in> set (consumption_records db)" "institute r = user"
  shows "r \<in> set (trend_records db user c)"
proof -
  have "minus_days today (10 + 355) = Some c" using assms(1) by simp
  then have "minus_days recent 355 = Some c" by (simp only: minus_days_add assms(2) option.case)
  then have "c < recent" by (rule minus_days_less) simp
  with assms(3-5) show ?thesis by (simp add: trend_records_def)
qed

lemma valid_future: "is_valid False future_request = Inr future_vd"
  by (simp add: is_valid_def run_field_def field_error_def field_value_def
      DEPARTMENT_CHOICES_def valid_date_def year_of_def month_of_def day_of_def days_in_month_def
      plain_request_def plain_vd_def future_request_def future_vd_def)

lemma attrs_future:
  "set_attrs future_vd (new_instance 7 (2027, 3, 15)) = test_raw\<lparr>date := (2027, 3, 15)\<rparr>"
  by (simp add: set_attrs_def new_instance_def future_vd_def plain_vd_def test_raw_def)

lemma calc_future:
  "calculate_emissions grid_only (test_raw\<lparr>date := (2027, 3, 15)\<rparr>) = future_saved\<lparr>pk := None\<rparr>"
  by (simp add: calculate_emissions_def Let_def dict_get_def factors_dict_def grid_only_def
      test_raw_def test_saved_def future_saved_def)

lemma base_save_future:
  "base_save grid_db (future_saved\<lparr>pk := None\<rparr>) = (Inr future_saved, future_db)"
  by (simp add: base_save_def Let_def violates_unique_def grid_db_def future_db_def
      future_saved_def test_saved_def)

lemma post_future: "post_consumption grid_db 7 future_request = (Inr future_saved, future_db)"
proof -
  have "emission_factors grid_db = grid_only" by (simp add: grid_db_def)
  moreover have "vd_date future_vd = Some (2027, 3, 15)" by (simp add: future_vd_def)
  ultimately show ?thesis
    by (simp add: post_consumption_def valid_future create_def attrs_future save_def
        calc_future base_save_future)
qed

lemma future_saved_fields:
  "institute future_saved = 7" "date future_saved = (2027, 3, 15)" "department future_saved = ''LABS''"
  "total_emissions future_saved = 146.942" "electricity_emissions future_saved = 90"
  "fuel_emissions future_saved = 44.31" "water_emissions future_saved = 1.032"
  "waste_emissions future_saved = 11.6"
  by (simp_all add: future_saved_def test_saved_def test_raw_def)

lemma strftime_march: "strftime_Ym (2027, 3, d) = ''2027-03''"
  by code_simp

lemma trend_item_march:
  "trend_item \<lparr>mr_month = (2027, 3, d), mr_total_emissions = Some 146.942,
      mr_electricity_emissions = Some 90, mr_fuel_emissions = Some 44.31,
      mr_water_emissions = Some 1.032, mr_waste_emissions = Some 11.6\<rparr> = march_entry"
  by (simp add: trend_item_def or0_def march_entry_def py_round_def round_half_even_def
      strftime_march)

lemma trend_future:
  "map trend_item (monthly_data future_db 7 (2025, 11, 4)) = [march_entry]"
proof -
  have "trend_records future_db 7 (2025, 11, 4) = [future_saved]"
    by (simp add: trend_records_def future_db_def future_saved_fields)
  then have "monthly_data future_db 7 (2025, 11, 4) =
      [\<lparr>mr_month = (2027, 3, 1), mr_total_emissions = Some 146.942,
        mr_electricity_emissions = Some 90, mr_fuel_emissions = Some 44.31,
        mr_water_emissions = Some 1.032, mr_waste_emissions = Some 11.6\<rparr>]"
    by (simp add: monthly_data_def TruncMonth_def year_of_def month_of_def Sum_agg_def
        future_saved_fields)
  then show ?thesis by (simp only: trend_item_march list.map)
qed

lemma filtered_future: "filtered_records future_db 7 None None = Inr [future_saved]"
  by (simp add: filtered_records_eq[OF parse_texts(1) parse_texts(1)] year_in_range_def
      in_filter_def future_db_def future_saved_fields)

lemma stats_future_eq:
  "DashboardStatsView_get future_db 7 (2026, 11, 4) None None = Inr future_stats"
  by (simp add: stats_of_filtered[OF filtered_future today_minus_365] trend_future
      department_breakdown_eq future_stats_def future_saved_fields py_round_def
      round_half_even_def)

text \<open>
  Claim C5 against the code. The trend query bounds the date from below only
  (\<open>date__gte=twelve_months_ago\<close>), although the code announces the last 12 months. A
  record dated after today is accepted by the create request and its month appears in
  the trend: on 4 November 2026 the trend holds March 2027, which is not a month of the
  trailing 365 days.
\<close>

theorem C5_future_month_in_trend:
  "post_consumption grid_db 7 future_request = (Inr future_saved, future_db) \<and>
   (2026, 11, 4) < date future_saved \<and>
   DashboardStatsView_get future_db 7 (2026, 11, 4) None None = Inr future_stats \<and>
   st_monthly_trend future_stats = [march_entry] \<and>
   te_month march_entry = ''2027-03''"
  using post_future stats_future_eq
  by (simp add: future_saved_fields future_stats_def march_entry_def)

section \<open>Emission fields in the request body\<close>

lemma run_field_value:
  "field_error name (run_field required partial check s) = [] \<Longrightarrow>
   field_value (run_field required partial check s) = (case s of Value v \<Rightarrow> Some v | _ \<Rightarrow> None)"
  by (auto simp: field_error_def field_value_def run_field_def split: submitted.splits if_splits)

lemma run_field_required:
  "field_error name (run_field True False check s) = [] \<Longrightarrow> \<exists>v. s = Value v"
  by (auto simp: field_error_def run_field_def split: submitted.splits if_splits)

lemma is_valid_fields:
  assumes "is_valid partial data = Inr vd"
  shows "vd_department vd = (case rq_department data of Value v \<Rightarrow> Some v | _ \<Rightarrow> None)"
    and "vd_date vd = (case rq_date data of Value v \<Rightarrow> Some v | _ \<Rightarrow> None)"
    and "vd_electricity_kwh vd = (case rq_electricity_kwh data of Value v \<Rightarrow> Some v | _ \<Rightarrow> None)"
    and "vd_diesel_liters vd = (case rq_diesel_liters data of Value v \<Rightarrow> Some v | _ \<Rightarrow> None)"
    and "vd_petrol_liters vd = (case rq_petrol_liters data of Value v \<Rightarrow> Some v | _ \<Rightarrow> None)"
    and "vd_lpg_kg vd = (case rq_lpg_kg data of Value v \<Rightarrow> Some v | _ \<Rightarrow> None)"
    and "vd_water_kl vd = (case rq_water_kl data of Value v \<Rightarrow> Some v | _ \<Rightarrow> None)"
    and "vd_waste_kg vd = (case rq_waste_kg data of Value v \<Rightarrow> Some v | _ \<Rightarrow> None)"
  using assms
  by (auto simp: is_valid_def Let_def run_field_value split: if_splits)

lemma is_valid_required:
  assumes "is_valid False data = Inr vd"
  shows "\<exists>dep d. rq_department data = Value dep \<and> rq_date data = Value d"
  using assms
  by (auto simp: is_valid_def Let_def split: if_splits dest: run_field_required)

lemma case_submitted_or:
  "(case (case s of Value v \<Rightarrow> Some v | _ \<Rightarrow> None) of None \<Rightarrow> d | Some v \<Rightarrow> v) = submitted_or s d"
  by (simp add: submitted_or_def split: submitted.splits)

lemma set_attrs_submitted:
  assumes "is_valid partial data = Inr vd"
  shows "department (set_attrs vd x) = submitted_or (rq_department data) (department x)"
    and "date (set_attrs vd x) = submitted_or (rq_date data) (date x)"
    and "electricity_kwh (set_attrs vd x) = submitted_or (rq_electricity_kwh data) (electricity_kwh x)"
    and "diesel_liters (set_attrs vd x) = submitted_or (rq_diesel_liters data) (diesel_liters x)"
    and "petrol_liters (set_attrs vd x) = submitted_or (rq_petrol_liters data) (petrol_liters x)"
    and "lpg_kg (set_attrs vd x) = submitted_or (rq_lpg_kg data) (lpg_kg x)"
    and "water_kl (set_attrs vd x) = submitted_or (rq_water_kl data) (water_kl x)"
    and "waste_kg (set_attrs vd x) = submitted_or (rq_waste_kg data) (waste_kg x)"
    and "institute (set_attrs vd x) = institute x"
  by (simp_all add: set_attrs_def is_valid_fields[OF assms] case_submitted_or)

lemma base_save_raw:
  assumes "base_save db s = (Inr r, db')"
  shows "institute r = institute s \<and> department r = department s \<and> date r = date s \<and>
         electricity_kwh r = electricity_kwh s \<and> diesel_liters r = diesel_liters s \<and>
         petrol_liters r = petrol_liters s \<and> lpg_kg r = lpg_kg s \<and> water_kl r = water_kl s \<and>
         waste_kg r = waste_kg s \<and> (pk s \<noteq> None \<longrightarrow> pk r = pk s)"
  using assms by (auto simp: base_save_def Let_def split: if_splits option.splits)

lemma post_raw:
  assumes "post_consumption db user data = (Inr r, db')"
  shows "institute r = user \<and>
         rq_department data = Value (department r) \<and> rq_date data = Value (date r) \<and>
         electricity_kwh r = submitted_or (rq_electricity_kwh data) 0 \<and>
         diesel_liters r = submitted_or (rq_diesel_liters data) 0 \<and>
         petrol_liters r = submitted_or (rq_petrol_liters data) 0 \<and>
         lpg_kg r = submitted_or (rq_lpg_kg data) 0 \<and>
         water_kl r = submitted_or (rq_water_kl data) 0 \<and>
         waste_kg r = submitted_or (rq_waste_kg data) 0"
proof -
  from assms obtain vd where v: "is_valid False data = Inr vd"
    by (auto simp: post_consumption_def split: sum.splits)
  from is_valid_required[OF v] obtain dep d where
    rq: "rq_department data = Value dep" "rq_date data = Value d" by blast
  then have "vd_date vd = Some d" using is_valid_fields(2)[OF v] by simp
  with assms v have b: "base_save db (calculate_emissions (emission_factors db)
      (set_attrs vd (new_instance user d))) = (Inr r, db')"
    by (simp add: post_consumption_valid)
  show ?thesis
    using base_save_raw[OF b] rq
    by (simp add: calculate_emissions_raw set_attrs_submitted[OF v] new_instance_def
        submitted_or_def)
qed

lemma update_raw:
  assumes "update_consumption partial db user i data = (Inr r, db')"
  shows "\<exists>x. get_object db user i = Inr x \<and> pk r = Some i \<and> institute r = institute x \<and>
           department r = submitted_or (rq_department data) (department x) \<and>
           date r = submitted_or (rq_date data) (date x) \<and>
           electricity_kwh r = submitted_or (rq_electricity_kwh data) (electricity_kwh x) \<and>
           diesel_liters r = submitted_or (rq_diesel_liters data) (diesel_liters x) \<and>
           petrol_liters r = submitted_or (rq_petrol_liters data) (petrol_liters x) \<and>
           lpg_kg r = submitted_or (rq_lpg_kg data) (lpg_kg x) \<and>
           water_kl r = submitted_or (rq_water_kl data) (water_kl x) \<and>
           waste_kg r = submitted_or (rq_waste_kg data) (waste_kg x)"
proof -
  from assms obtain x where g: "get_object db user i = Inr x"
    by (auto simp: update_consumption_def split: sum.splits)
  with assms obtain vd where v: "is_valid partial data = Inr vd"
    by (auto simp: update_consumption_def split: sum.splits)
  from assms have b: "base_save db (calculate_emissions (emission_factors db) (set_attrs vd x)) =
      (Inr r, db')"
    by (simp add: update_consumption_valid[OF g v])
  have p: "pk (calculate_emissions (emission_factors db) (set_attrs vd x)) = Some i"
    using get_object_pk[OF g] by (simp add: set_attrs_pk)
  show ?thesis
    using base_save_raw[OF b] g p
    by (simp add: calculate_emissions_raw set_attrs_submitted[OF v])
qed

text \<open>
  Claim C9. Whatever a create or update request holds for the five emission fields
  (values, junk or nothing) has no effect: the request has the same outcome and leaves
  the same table as the request without them. The record a successful request stores
  has the raw quantities of the request: for a create the submitted ones, 0 for a
  quantity the body does not hold; for an update the submitted ones, the stored value
  for a field the body does not hold. It is a fixed point of the calculator under the
  factor table of that moment, so its emission fields are the calculator's outputs for
  those raw quantities.
\<close>

theorem C9_derived_inputs_ignored:
  "post_consumption db user
     (data\<lparr>rq_electricity_emissions := a, rq_fuel_emissions := b, rq_water_emissions := c,
           rq_waste_emissions := d, rq_total_emissions := t\<rparr>) =
   post_consumption db user data \<and>
   update_consumption partial db user i
     (data\<lparr>rq_electricity_emissions := a, rq_fuel_emissions := b, rq_water_emissions := c,
           rq_waste_emissions := d, rq_total_emissions := t\<rparr>) =
   update_consumption partial db user i data \<and>
   (post_consumption db user data = (Inr r, db') \<longrightarrow>
      r \<in> set (consumption_records db') \<and>
      calculate_emissions (emission_factors db) r = r \<and>
      institute r = user \<and>
      rq_department data = Value (department r) \<and> rq_date data = Value (date r) \<and>
      electricity_kwh r = submitted_or (rq_electricity_kwh data) 0 \<and>
      diesel_liters r = submitted_or (rq_diesel_liters data) 0 \<and>
      petrol_liters r = submitted_or (rq_petrol_liters data) 0 \<and>
      lpg_kg r = submitted_or (rq_lpg_kg data) 0 \<and>
      water_kl r = submitted_or (rq_water_kl data) 0 \<and>
      waste_kg r = submitted_or (rq_waste_kg data) 0) \<and>
   (update_consumption partial db user i data = (Inr r, db') \<longrightarrow>
      r \<in> set (consumption_records db') \<and>
      calculate_emissions (emission_factors db) r = r \<and>
      (\<exists>x. get_object db user i = Inr x \<and> pk r = Some i \<and> institute r = institute x \<and>
           department r = submitted_or (rq_department data) (department x) \<and>
           date r = submitted_or (rq_date data) (date x) \<and>
           electricity_kwh r = submitted_or (rq_electricity_kwh data) (electricity_kwh x) \<and>
           diesel_liters r = submitted_or (rq_diesel_liters data) (diesel_liters x) \<and>
           petrol_liters r = submitted_or (rq_petrol_liters data) (petrol_liters x) \<and>
           lpg_kg r = submitted_or (rq_lpg_kg data) (lpg_kg x) \<and>
           water_kl r = submitted_or (rq_water_kl data) (water_kl x) \<and>
           waste_kg r = submitted_or (rq_waste_kg data) (waste_kg x)))"
proof -
  have 1: "post_consumption db user
     (data\<lparr>rq_electricity_emissions := a, rq_fuel_emissions := b, rq_water_emissions := c,
           rq_waste_emissions := d, rq_total_emissions := t\<rparr>) = post_consumption db user data"
    unfolding post_consumption_def is_valid_ignores_derived ..
  have 2: "update_consumption partial db user i
     (data\<lparr>rq_electricity_emissions := a, rq_fuel_emissions := b, rq_water_emissions := c,
           rq_waste_emissions := d, rq_total_emissions := t\<rparr>) =
     update_consumption partial db user i data"
    unfolding update_consumption_def is_valid_ignores_derived ..
  show ?thesis
    using post_stores[of db user data r db'] post_raw[of db user data r db']
      update_stores[of partial db user i data r db'] update_raw[of partial db user i data r db']
    by (simp only: 1 2 simp_thms) blast
qed


lemma base_save_double:
  "base_save grid_db_saved test_updated = (Inr test_updated, grid_db_updated)"
  by (simp add: base_save_def Let_def violates_unique_def grid_db_saved_def grid_db_updated_def
      test_updated_def test_saved_def test_raw_def)

lemma put_double:
  "update_consumption False grid_db_saved 7 4 double_request = (Inr test_updated, grid_db_updated)"
proof -
  have g: "get_object grid_db_saved 7 4 = Inr test_saved"
    by (simp add: get_object_def get_queryset_def grid_db_saved_def test_saved_def test_raw_def)
  have "emission_factors grid_db_saved = grid_only" by (simp add: grid_db_saved_def)
  then show ?thesis
    by (simp add: update_consumption_valid[OF g valid_double] attrs_double calc_double
        base_save_double)
qed

text \<open>
  The test vector posted with forged emission fields, then a PUT of 200 kWh with forged
  emission fields on the stored record: the records stored hold the submitted
  quantities and the calculator's emissions, 146.942 in total and 180 for electricity.
\<close>

theorem C9_derived_inputs_ignored_witness:
  "post_consumption grid_db 7 forged_request = (Inr test_saved, grid_db_saved) \<and>
   rq_total_emissions forged_request = Value 0 \<and>
   rq_electricity_kwh forged_request = Value 100 \<and>
   electricity_kwh test_saved = 100 \<and>
   total_emissions test_saved = 146.942 \<and>
   test_saved \<in> set (consumption_records grid_db_saved) \<and>
   calculate_emissions (emission_factors grid_db) test_saved = test_saved \<and>
   update_consumption False grid_db_saved 7 4 forged_double = (Inr test_updated, grid_db_updated) \<and>
   rq_electricity_emissions forged_double = Value 0 \<and>
   rq_electricity_kwh forged_double = Value 200 \<and>
   electricity_kwh test_updated = 200 \<and>
   electricity_emissions test_updated = 180 \<and>
   test_updated \<in> set (consumption_records grid_db_updated) \<and>
   calculate_emissions (emission_factors grid_db_saved) test_updated = test_updated"
proof -
  note c = C9_derived_inputs_ignored[where db = grid_db and user = 7 and data = plain_request
      and a = "Value 0" and b = "Value 1" and c = Malformed and d = "Value (- 7)"
      and t = "Value 0" and r = test_saved and db' = grid_db_saved,
      folded forged_request_def]
  note u = C9_derived_inputs_ignored[where db = grid_db_saved and user = 7 and data = double_request
      and a = "Value 0" and b = "Value 1" and c = Malformed and d = "Value (- 7)"
      and t = "Value 0" and r = test_updated and db' = grid_db_updated
      and partial = False and i = 4,
      folded forged_double_def]
  from c post_plain
  have 1: "post_consumption grid_db 7 forged_request = (Inr test_saved, grid_db_saved)"
    by simp
  note c3 = c[THEN conjunct2, THEN conjunct2, THEN conjunct1, rule_format, OF post_plain]
  from c3
  have 2: "test_saved \<in> set (consumption_records grid_db_saved)"
    "calculate_emissions (emission_factors grid_db) test_saved = test_saved"
    "electricity_kwh test_saved = submitted_or (rq_electricity_kwh plain_request) 0"
    by simp_all
  have rq: "rq_total_emissions forged_request = Value 0"
    "rq_electricity_kwh forged_request = Value 100"
    "rq_electricity_kwh plain_request = Value 100"
    "rq_electricity_emissions forged_double = Value 0"
    "rq_electricity_kwh forged_double = Value 200"
    "rq_electricity_kwh double_request = Value 200"
    by (simp_all add: forged_request_def forged_double_def double_request_def plain_request_def)
  from 2(3) have 3: "electricity_kwh test_saved = 100"
    by (simp add: rq(3) submitted_or_def)
  from u put_double
  have 4: "update_consumption False grid_db_saved 7 4 forged_double = (Inr test_updated, grid_db_updated)"
    by simp
  note u4 = u[THEN conjunct2, THEN conjunct2, THEN conjunct2, rule_format, OF put_double]
  from u4 have 5: "test_updated \<in> set (consumption_records grid_db_updated)"
    "calculate_emissions (emission_factors grid_db_saved) test_updated = test_updated"
    by simp_all
  from u4 have 6: "electricity_kwh test_updated = 200"
    by (auto simp: rq(6) submitted_or_def)
  have 7: "total_emissions test_saved = 146.942" "electricity_emissions test_updated = 180"
    by (simp_all add: test_saved_def test_updated_def)
  show ?thesis
    using 1 2(1,2) 3 4 5(1,2) 6 7 rq(1,2,4,5) by (simp only: simp_thms)
qed

end
